theory Spec2Isabelle
  imports Main "HOL-Library.AList"
begin

section \<open>JavaScript values and errors\<close>

text \<open>
  The values that cross the functions of \<^verbatim>\<open>src/utils.js\<close> untyped: caller overrides,
  live fee data, configuration reads and contract call arguments. A Number is modelled by
  its integer value (the code only ever builds the Numbers 500000, 100000, 200000, 300000
  and 350000 and chain ids); a BigInt is an unbounded integer; \<open>JObject\<close> is any object
  or function, such as the properties every plain object inherits.
\<close>

datatype jsval =
    JUndefined
  | JNull
  | JBool bool
  | JNumber int
  | JBigInt int
  | JString string
  | JObject

text \<open>
  Every \<^verbatim>\<open>throw\<close> of the source and every exception that reaches it is a value.
  The first six are the \<^verbatim>\<open>new Error(...)\<close> of the source, named after their
  message templates; the others are raised by the JavaScript runtime, by the ethers
  library and by the remote chain interface.
\<close>

datatype error =
    InvalidChainConfiguration string string
      \<comment> \<open>"Invalid chain configuration: <source> -> <dest>"\<close>
  | InvalidPrivateKeyFormat
      \<comment> \<open>"Invalid private key format (must be 64 hex chars with 0x prefix)"\<close>
  | AllRpcEndpointsFailed string
      \<comment> \<open>"All RPC endpoints failed for <chainId>"\<close>
  | MissingBridgeAddress string
      \<comment> \<open>"Missing bridge address for <sourceChain>"\<close>
  | InsufficientBalance string string
      \<comment> \<open>"Insufficient balance. Need <amount>, has <formatUnits(balance, decimals)>"\<close>
  | TransactionFailedOnChain
      \<comment> \<open>"Transaction failed on-chain"\<close>
  | TypeError string
  | LibraryError string
  | RemoteError string

text \<open>JavaScript truthiness, as \<^verbatim>\<open>||\<close>, \<^verbatim>\<open>!\<close> and \<^verbatim>\<open>? :\<close> read a value.\<close>

fun truthy :: "jsval \<Rightarrow> bool" where
  "truthy JUndefined = False"
| "truthy JNull = False"
| "truthy (JBool b) = b"
| "truthy (JNumber n) = (n \<noteq> 0)"
| "truthy (JBigInt n) = (n \<noteq> 0)"
| "truthy (JString s) = (s \<noteq> [])"
| "truthy JObject = True"

text \<open>BigInt division truncates towards zero.\<close>

definition bigint_div :: "int \<Rightarrow> int \<Rightarrow> int" where
  "bigint_div a b = sgn a * sgn b * (\<bar>a\<bar> div \<bar>b\<bar>)"

text \<open>
  \<^verbatim>\<open>x * 125n / 100n\<close>: multiplying a BigInt by anything that is not a BigInt
  (null, undefined, a Number, a string, a function) throws a TypeError.
\<close>

fun scale125 :: "jsval \<Rightarrow> error + jsval" where
  "scale125 (JBigInt n) = Inr (JBigInt (bigint_div (n * 125) 100))"
| "scale125 v = Inl (TypeError ''Cannot mix BigInt and other types, use explicit conversions'')"

text \<open>
  \<^verbatim>\<open>ethers.parseUnits("20", "gwei")\<close> and \<^verbatim>\<open>ethers.parseUnits("15", "gwei")\<close>:
  a gwei is \<open>10^9\<close> base units.
\<close>

definition parseUnits_gwei :: "int \<Rightarrow> int" where
  "parseUnits_gwei n = n * 10 ^ 9"

section \<open>The ethers library, the configuration and the remote chain\<close>

text \<open>
  The ethers library is not part of the repository. The calls the source makes on
  caller data are parameters of the model; each may throw.
\<close>

datatype unit_spec = UnitName string | UnitDecimals nat

record provider =
  rpc_url :: string
  net_chainId :: "int option"  \<comment> \<open>\<^verbatim>\<open>Number(CHAINS[chainId])\<close>; \<open>None\<close> is NaN\<close>
  net_name :: string

record ethers =
  formatUnits :: "jsval \<Rightarrow> unit_spec \<Rightarrow> error + string"
  parseUnits :: "string \<Rightarrow> nat \<Rightarrow> error + int"
  parseEther :: "string \<Rightarrow> error + int"
  getAddress :: "string \<Rightarrow> error + string"
  Wallet :: "string \<Rightarrow> error + string"
    \<comment> \<open>\<^verbatim>\<open>new ethers.Wallet(privateKey, provider)\<close> then \<^verbatim>\<open>getAddress()\<close>: the sender\<close>
  JsonRpcProvider :: "jsval \<Rightarrow> int option \<Rightarrow> string \<Rightarrow> error + provider"
  Contract :: "jsval \<Rightarrow> error + string"
    \<comment> \<open>\<^verbatim>\<open>new ethers.Contract(target, abi, wallet)\<close>: the handle's target\<close>

text \<open>
  \<^verbatim>\<open>config.js\<close> is not among the sources; its tables are parameters: for each table,
  the entries it is written with. The tables are plain objects, read as \<^verbatim>\<open>T[k]\<close>, so
  a read finds an entry of the table, or else a property that every plain object inherits
  from \<^verbatim>\<open>Object.prototype\<close> (a function, or the prototype itself), or else
  \<^verbatim>\<open>undefined\<close>.
\<close>

record config =
  CHAINS :: "string \<rightharpoonup> int"
  RPC_URLS :: "string \<rightharpoonup> string"
  RPC_FALLBACKS :: "string \<rightharpoonup> string list"
  UNION_CONTRACT :: "string \<rightharpoonup> string"
  TOKENS_WETH :: "string \<rightharpoonup> string"

datatype 'a property = Own 'a | Inherited | Absent

definition objectPrototypeNames :: "string list" where
  "objectPrototypeNames =
     [''constructor'', ''hasOwnProperty'', ''isPrototypeOf'', ''propertyIsEnumerable'',
      ''toLocaleString'', ''toString'', ''valueOf'', ''__proto__'', ''__defineGetter__'',
      ''__defineSetter__'', ''__lookupGetter__'', ''__lookupSetter__'']"

definition readProp :: "(string \<rightharpoonup> 'a) \<Rightarrow> string \<Rightarrow> 'a property" where
  "readProp T k =
     (case T k of
        Some v \<Rightarrow> Own v
      | None \<Rightarrow> if k \<in> set objectPrototypeNames then Inherited else Absent)"

text \<open>A string read from a table, as the value the code goes on with.\<close>

definition stringRead :: "(string \<rightharpoonup> string) \<Rightarrow> string \<Rightarrow> jsval" where
  "stringRead T k =
     (case readProp T k of Own s \<Rightarrow> JString s | Inherited \<Rightarrow> JObject | Absent \<Rightarrow> JUndefined)"

text \<open>Fee data as \<^verbatim>\<open>provider.getFeeData()\<close> resolves it: each field null or a BigInt.\<close>

record feeData =
  fd_maxFeePerGas :: jsval
  fd_maxPriorityFeePerGas :: jsval

text \<open>
  The object with the keys \<^verbatim>\<open>maxFeePerGas\<close>, \<^verbatim>\<open>maxPriorityFeePerGas\<close>,
  \<^verbatim>\<open>gasLimit\<close>: the caller's \<^verbatim>\<open>overrideSettings\<close> (a missing key reads
  \<^verbatim>\<open>undefined\<close>) and the parameters \<^verbatim>\<open>getGasParams\<close> returns.
\<close>

record gas =
  maxFeePerGas :: jsval
  maxPriorityFeePerGas :: jsval
  gasLimit :: jsval

definition no_overrides :: gas where
  "no_overrides = \<lparr>maxFeePerGas = JUndefined, maxPriorityFeePerGas = JUndefined, gasLimit = JUndefined\<rparr>"

record tx_call =
  tx_target :: string
  tx_method :: string
  tx_args :: "jsval list"
  tx_value :: jsval      \<comment> \<open>the \<^verbatim>\<open>value\<close> override; undefined when absent\<close>
  tx_gas :: gas

record txResponse =
  txr_hash :: string
  txr_gasLimit :: int
  txr_maxFeePerGas :: jsval
  txr_maxPriorityFeePerGas :: jsval

record receipt =
  rc_hash :: string
  rc_status :: "int option"   \<comment> \<open>\<open>None\<close> is a null status\<close>
  rc_gasUsed :: int

text \<open>Every remote call the code awaits, in the order it issues them.\<close>

datatype request =
    GetBlockNumber provider
  | GetFeeData provider
  | Decimals string
  | BalanceOf string string
  | Allowance string string jsval
  | Send tx_call
  | Wait txResponse

datatype probe_outcome = Answered int | Rejected error | TimedOut

text \<open>
  The remote chain interface answers each call; the answer may depend on every call
  issued before it (the first argument). \<open>probe\<close> is the outcome of the race between
  \<^verbatim>\<open>provider.getBlockNumber()\<close> and the timer of \<^verbatim>\<open>RPC_TIMEOUTS.request\<close> ms.
\<close>

record remote =
  probe :: "request list \<Rightarrow> provider \<Rightarrow> probe_outcome"
  feeRead :: "request list \<Rightarrow> provider \<Rightarrow> error + feeData"
  readDecimals :: "request list \<Rightarrow> string \<Rightarrow> error + nat"
  readBalance :: "request list \<Rightarrow> string \<Rightarrow> string \<Rightarrow> error + int"
  readAllowance :: "request list \<Rightarrow> string \<Rightarrow> string \<Rightarrow> jsval \<Rightarrow> error + int"
  submit :: "request list \<Rightarrow> tx_call \<Rightarrow> error + txResponse"
  waitMined :: "request list \<Rightarrow> txResponse \<Rightarrow> error + receipt"

text \<open>
  The process state: the calls issued so far, and the module's \<^verbatim>\<open>providerCache\<close>
  (a Map keeps insertion order; \<^verbatim>\<open>set\<close> replaces in place or appends).
\<close>

record state =
  trace :: "request list"
  providerCache :: "(string \<times> provider) list"

definition issue :: "request \<Rightarrow> state \<Rightarrow> state" where
  "issue r st = st\<lparr>trace := trace st @ [r]\<rparr>"

section \<open>debugLog\<close>

text \<open>
  \<^verbatim>\<open>debugLog\<close> prints \<^verbatim>\<open>JSON.stringify(safeData, null, 2)\<close>, which throws a TypeError
  on a BigInt. \<^verbatim>\<open>safeData\<close> is the logged object with a truthy \<^verbatim>\<open>value\<close> and a
  truthy \<^verbatim>\<open>amount\<close> turned into strings. The argument is the logged object, key by key.
\<close>

fun is_BigInt :: "jsval \<Rightarrow> bool" where
  "is_BigInt (JBigInt n) = True"
| "is_BigInt v = False"

definition debugLog :: "(string \<times> jsval) list \<Rightarrow> error + unit" where
  "debugLog data =
     (if list_ex (\<lambda>(k, v). is_BigInt v \<and> \<not> ((k = ''value'' \<or> k = ''amount'') \<and> truthy v)) data
      then Inl (TypeError ''Do not know how to serialize a BigInt'')
      else Inr ())"

section \<open>getGasParams\<close>

text \<open>\<^verbatim>\<open>override || (live * 125n / 100n) || fallback\<close>, evaluated left to right.\<close>

definition pickFee :: "jsval \<Rightarrow> jsval \<Rightarrow> int \<Rightarrow> error + jsval" where
  "pickFee override live fallback =
     (if truthy override then Inr override
      else case scale125 live of
             Inl e \<Rightarrow> Inl e
           | Inr v \<Rightarrow> if truthy v then Inr v else Inr (JBigInt (parseUnits_gwei fallback)))"

text \<open>The body of the \<^verbatim>\<open>try\<close>, after the fee data read (lines 28 to 44).\<close>

definition calculatedParams :: "ethers \<Rightarrow> feeData \<Rightarrow> gas \<Rightarrow> error + gas" where
  "calculatedParams lib fd overrideSettings =
     (case pickFee (maxFeePerGas overrideSettings) (fd_maxFeePerGas fd) 20 of
        Inl e \<Rightarrow> Inl e
      | Inr mf \<Rightarrow>
     (case pickFee (maxPriorityFeePerGas overrideSettings) (fd_maxPriorityFeePerGas fd) 15 of
        Inl e \<Rightarrow> Inl e
      | Inr mp \<Rightarrow>
     (let gl = (if truthy (gasLimit overrideSettings) then gasLimit overrideSettings
                else JNumber 500000)
      in case formatUnits lib mf (UnitName ''gwei'') of
           Inl e \<Rightarrow> Inl e
         | Inr maxFeeGwei \<Rightarrow>
        (case formatUnits lib mp (UnitName ''gwei'') of
           Inl e \<Rightarrow> Inl e
         | Inr maxPriorityGwei \<Rightarrow>
        (case debugLog [(''maxFeeGwei'', JString maxFeeGwei),
                        (''maxPriorityGwei'', JString maxPriorityGwei), (''gasLimit'', gl)] of
           Inl e \<Rightarrow> Inl e
         | Inr u \<Rightarrow> Inr \<lparr>maxFeePerGas = mf, maxPriorityFeePerGas = mp, gasLimit = gl\<rparr>)))))"

text \<open>The \<^verbatim>\<open>catch\<close> (lines 45 to 52): the error is logged and the defaults returned.\<close>

definition defaultParams :: gas where
  "defaultParams =
     \<lparr>maxFeePerGas = JBigInt (parseUnits_gwei 20),
      maxPriorityFeePerGas = JBigInt (parseUnits_gwei 15),
      gasLimit = JNumber 500000\<rparr>"

definition getGasParams_try :: "remote \<Rightarrow> ethers \<Rightarrow> provider \<Rightarrow> gas \<Rightarrow> state \<Rightarrow> error + gas" where
  "getGasParams_try env lib prov overrideSettings st =
     (case feeRead env (trace st) prov of
        Inl e \<Rightarrow> Inl e
      | Inr fd \<Rightarrow> calculatedParams lib fd overrideSettings)"

definition getGasParams ::
  "remote \<Rightarrow> ethers \<Rightarrow> provider \<Rightarrow> gas \<Rightarrow> state \<Rightarrow> (error + gas) \<times> state" where
  "getGasParams env lib prov overrideSettings st =
     (case getGasParams_try env lib prov overrideSettings st of
        Inl e \<Rightarrow> (Inr defaultParams, issue (GetFeeData prov) st)
      | Inr p \<Rightarrow> (Inr p, issue (GetFeeData prov) st))"

section \<open>getProvider\<close>

text \<open>\<^verbatim>\<open>chainId.toLowerCase()\<close>, on the ASCII letters of a chain identifier.\<close>

definition toLowerCase :: "string \<Rightarrow> string" where
  "toLowerCase s =
     map (\<lambda>c. let n = (of_char c :: nat) in if 65 \<le> n \<and> n \<le> 90 then char_of (n + 32) else c) s"

text \<open>\<^verbatim>\<open>Number(CHAINS[chainId])\<close>: the entry, or NaN (\<open>None\<close>) for anything else.\<close>

definition chainNumber :: "config \<Rightarrow> string \<Rightarrow> int option" where
  "chainNumber cfg chainId =
     (case readProp (CHAINS cfg) chainId of Own n \<Rightarrow> Some n | Inherited \<Rightarrow> None | Absent \<Rightarrow> None)"

text \<open>
  The candidate list of lines 57 to 61: the primary endpoint, the configured fallbacks
  and the public default, with the falsy entries (undefined, the empty string) dropped.
  The spread \<^verbatim>\<open>...(RPC_FALLBACKS[chainId] || [])\<close> throws a TypeError when the read
  finds an inherited property, which is truthy and not iterable.
\<close>

definition spreadThrows :: "config \<Rightarrow> string \<Rightarrow> bool" where
  "spreadThrows cfg chainId =
     (case readProp (RPC_FALLBACKS cfg) chainId of
        Own urls \<Rightarrow> False | Inherited \<Rightarrow> True | Absent \<Rightarrow> False)"

definition endpoints :: "config \<Rightarrow> string \<Rightarrow> jsval list" where
  "endpoints cfg chainId =
     filter truthy
       ([stringRead (RPC_URLS cfg) chainId]
        @ (case readProp (RPC_FALLBACKS cfg) chainId of
             Own urls \<Rightarrow> map JString urls | Inherited \<Rightarrow> [] | Absent \<Rightarrow> [])
        @ [JString ''https://ethereum-sepolia.publicnode.com''])"

text \<open>
  The loop of lines 63 to 87. Whatever the \<^verbatim>\<open>try\<close> throws (the constructor, the
  probe, the timer) is logged and the next endpoint tried.
\<close>

fun tryEndpoints ::
  "remote \<Rightarrow> ethers \<Rightarrow> config \<Rightarrow> string \<Rightarrow> jsval list \<Rightarrow> state \<Rightarrow> (error + provider) \<times> state" where
  "tryEndpoints env lib cfg chainId [] st = (Inl (AllRpcEndpointsFailed chainId), st)"
| "tryEndpoints env lib cfg chainId (url # urls) st =
     (case JsonRpcProvider lib url (chainNumber cfg chainId) (toLowerCase chainId) of
        Inl e \<Rightarrow> tryEndpoints env lib cfg chainId urls st
      | Inr p \<Rightarrow>
         (case probe env (trace st) p of
            Answered n \<Rightarrow>
              (Inr p, (issue (GetBlockNumber p) st)
                        \<lparr>providerCache := AList.update chainId p (providerCache st)\<rparr>)
          | Rejected e \<Rightarrow> tryEndpoints env lib cfg chainId urls (issue (GetBlockNumber p) st)
          | TimedOut \<Rightarrow> tryEndpoints env lib cfg chainId urls (issue (GetBlockNumber p) st)))"

text \<open>
  A call of \<^verbatim>\<open>getProvider\<close> that runs to its end before any other call is made.
\<close>

definition getProvider ::
  "remote \<Rightarrow> ethers \<Rightarrow> config \<Rightarrow> string \<Rightarrow> state \<Rightarrow> (error + provider) \<times> state" where
  "getProvider env lib cfg chainId st =
     (case map_of (providerCache st) chainId of
        None \<Rightarrow>
          if spreadThrows cfg chainId
          then (Inl (TypeError ''RPC_FALLBACKS[chainId] is not iterable''), st)
          else tryEndpoints env lib cfg chainId (endpoints cfg chainId) st
      | Some p \<Rightarrow> (Inr p, st))"

subsection \<open>Calls that overlap\<close>








section \<open>executeTransaction\<close>

text \<open>
  \<^verbatim>\<open>contract[method](...args, overrides)\<close>, the log of the submission (whose
  \<^verbatim>\<open>formatUnits\<close> may throw), \<^verbatim>\<open>txResponse.wait()\<close> and the status check.
\<close>

definition executeTransaction ::
  "remote \<Rightarrow> ethers \<Rightarrow> tx_call \<Rightarrow> state \<Rightarrow> (error + receipt) \<times> state" where
  "executeTransaction env lib call st =
     (let st1 = issue (Send call) st in
      case submit env (trace st) call of
        Inl e \<Rightarrow> (Inl e, st1)
      | Inr txResponse \<Rightarrow>
     (case formatUnits lib (txr_maxFeePerGas txResponse) (UnitName ''gwei'') of
        Inl e \<Rightarrow> (Inl e, st1)
      | Inr g1 \<Rightarrow>
     (case formatUnits lib (txr_maxPriorityFeePerGas txResponse) (UnitName ''gwei'') of
        Inl e \<Rightarrow> (Inl e, st1)
      | Inr g2 \<Rightarrow>
     (let st2 = issue (Wait txResponse) st1 in
      case waitMined env (trace st1) txResponse of
        Inl e \<Rightarrow> (Inl e, st2)
      | Inr rc \<Rightarrow>
          if rc_status rc \<noteq> Some 1 then (Inl TransactionFailedOnChain, st2)
          else (Inr rc, st2)))))"

subsection \<open>The method lookup of line 93\<close>

text \<open>
  \<^verbatim>\<open>contract[method](...args, overrides)\<close> is a call by bare name. ethers (version 6,
  \<^verbatim>\<open>Interface.getFunction\<close>) looks the name up among the functions of the ABI the
  contract was made with, keeping those whose number of inputs is the number of values
  passed, or one less (the last value may be the overrides). When none is left, or more
  than one, it throws before anything is sent. An ABI is the list of its functions, each
  with its name and its number of inputs.
\<close>

type_synonym abi = "(string \<times> nat) list"

definition matchingFragments :: "abi \<Rightarrow> string \<Rightarrow> nat \<Rightarrow> nat list" where
  "matchingFragments fragments name nvalues =
     map snd (filter (\<lambda>(f, n). f = name \<and> (n = nvalues \<or> Suc n = nvalues)) fragments)"

definition getFunction :: "abi \<Rightarrow> string \<Rightarrow> nat \<Rightarrow> error + nat" where
  "getFunction fragments name nvalues =
     (case matchingFragments fragments name nvalues of
        [] \<Rightarrow> Inl (LibraryError ''no matching fragment'')
      | [n] \<Rightarrow> Inr n
      | n # m # ms \<Rightarrow> Inl (LibraryError ''ambiguous function description''))"

text \<open>
  \<^verbatim>\<open>executeTransaction\<close> on a contract with a given ABI: the lookup, and then the
  function above. A single match that takes the overrides for its last input cannot
  encode them.
\<close>

definition executeTransactionOn ::
  "remote \<Rightarrow> ethers \<Rightarrow> abi \<Rightarrow> tx_call \<Rightarrow> state \<Rightarrow> (error + receipt) \<times> state" where
  "executeTransactionOn env lib fragments call st =
     (case getFunction fragments (tx_method call) (Suc (length (tx_args call))) of
        Inl e \<Rightarrow> (Inl e, st)
      | Inr n \<Rightarrow>
          if n = length (tx_args call) then executeTransaction env lib call st
          else (Inl (LibraryError ''invalid argument''), st))"

text \<open>The ABIs of lines 161 to 164, 200 to 205 and 236 to 239.\<close>

definition bridgeNativeAbi :: abi where
  "bridgeNativeAbi = [(''depositNative'', 3), (''depositNative'', 2)]"

definition erc20Abi :: abi where
  "erc20Abi = [(''approve'', 2), (''balanceOf'', 1), (''allowance'', 2), (''decimals'', 0)]"

definition bridgeERC20Abi :: abi where
  "bridgeERC20Abi = [(''depositERC20'', 5), (''depositERC20'', 4)]"

section \<open>sendToken\<close>

record transfer =
  sourceChain :: string
  destChain :: string
  asset :: string
  amount :: string
  privateKey :: "string option"   \<comment> \<open>\<open>None\<close> is null or undefined\<close>
  gasSettings :: gas
  recipient :: "string option"
  referral :: "string option"

text \<open>
  \<^verbatim>\<open>!CHAINS[k]\<close>: the read finds nothing, or an entry that is zero. An inherited
  property is a function or an object, and truthy.
\<close>

definition chainUnknown :: "config \<Rightarrow> string \<Rightarrow> bool" where
  "chainUnknown cfg k =
     (case readProp (CHAINS cfg) k of Own n \<Rightarrow> n = 0 | Inherited \<Rightarrow> False | Absent \<Rightarrow> True)"

text \<open>The pattern \<^verbatim>\<open>/^0x[0-9a-fA-F]{64}$/\<close>.\<close>

definition isHexDigit :: "char \<Rightarrow> bool" where
  "isHexDigit c =
     (let n = (of_char c :: nat)
      in (48 \<le> n \<and> n \<le> 57) \<or> (97 \<le> n \<and> n \<le> 102) \<or> (65 \<le> n \<and> n \<le> 70))"

definition matchesKeyPattern :: "string \<Rightarrow> bool" where
  "matchesKeyPattern s =
     (take 2 s = ''0x'' \<and> length (drop 2 s) = 64 \<and> list_all isHexDigit (drop 2 s))"

text \<open>
  Lines 133 to 138: the two checks before any call is made. A key that passes is the
  string the rest of the function uses.
\<close>

definition validate :: "config \<Rightarrow> transfer \<Rightarrow> error + string" where
  "validate cfg req =
     (if chainUnknown cfg (sourceChain req) \<or> chainUnknown cfg (destChain req)
      then Inl (InvalidChainConfiguration (sourceChain req) (destChain req))
      else case privateKey req of
             None \<Rightarrow> Inl InvalidPrivateKeyFormat
           | Some k \<Rightarrow> if matchesKeyPattern k then Inr k else Inl InvalidPrivateKeyFormat)"

definition ZeroAddress :: string where
  "ZeroAddress = ''0x0000000000000000000000000000000000000000''"

definition isNative :: "transfer \<Rightarrow> bool" where
  "isNative req = (asset req = ''native'' \<or> asset req = ''NATIVE'')"

definition isWETH :: "transfer \<Rightarrow> bool" where
  "isWETH req = (asset req = ''WETH'')"

definition tokenAddress :: "config \<Rightarrow> transfer \<Rightarrow> jsval" where
  "tokenAddress cfg req =
     (if isNative req then JNull
      else if isWETH req then stringRead (TOKENS_WETH cfg) (sourceChain req)
      else JString (asset req))"

text \<open>\<^verbatim>\<open>referral || ethers.ZeroAddress\<close>.\<close>

definition referralOrZero :: "transfer \<Rightarrow> string" where
  "referralOrZero req =
     (case referral req of None \<Rightarrow> ZeroAddress | Some r \<Rightarrow> if r = [] then ZeroAddress else r)"

text \<open>\<^verbatim>\<open>CHAINS[destChain]\<close>, as the argument of the deposit calls.\<close>

definition destChainId :: "config \<Rightarrow> transfer \<Rightarrow> jsval" where
  "destChainId cfg req =
     (case readProp (CHAINS cfg) (destChain req) of
        Own n \<Rightarrow> JNumber n | Inherited \<Rightarrow> JObject | Absent \<Rightarrow> JUndefined)"

text \<open>What lines 140 to 150 establish for the rest of the transfer.\<close>

record resolved =
  rs_provider :: provider
  rs_sender :: string
  rs_recipient :: string
  rs_gasParams :: gas
  rs_bridge :: jsval

definition resolve ::
  "remote \<Rightarrow> ethers \<Rightarrow> config \<Rightarrow> transfer \<Rightarrow> string \<Rightarrow> state \<Rightarrow> (error + resolved) \<times> state" where
  "resolve env lib cfg req key st =
     (case getProvider env lib cfg (sourceChain req) st of
        (Inl e, st1) \<Rightarrow> (Inl e, st1)
      | (Inr prov, st1) \<Rightarrow>
     (case Wallet lib key of
        Inl e \<Rightarrow> (Inl e, st1)
      | Inr senderAddress \<Rightarrow>
     (case (case recipient req of
              None \<Rightarrow> Inr senderAddress
            | Some r \<Rightarrow> if r = [] then Inr senderAddress else getAddress lib r) of
        Inl e \<Rightarrow> (Inl e, st1)
      | Inr recipientAddress \<Rightarrow>
     (case getGasParams env lib prov (gasSettings req) st1 of
        (Inl e, st2) \<Rightarrow> (Inl e, st2)
      | (Inr gasParams, st2) \<Rightarrow>
     (let bridgeAddress = stringRead (UNION_CONTRACT cfg) (sourceChain req)
      in if \<not> truthy bridgeAddress then (Inl (MissingBridgeAddress (sourceChain req)), st2)
         else (Inr \<lparr>rs_provider = prov, rs_sender = senderAddress,
                    rs_recipient = recipientAddress, rs_gasParams = gasParams,
                    rs_bridge = bridgeAddress\<rparr>, st2))))))"

text \<open>The two call shapes of the native deposit (lines 171 to 180 and 183 to 192).\<close>

definition depositNativeReferral :: "config \<Rightarrow> transfer \<Rightarrow> resolved \<Rightarrow> string \<Rightarrow> int \<Rightarrow> tx_call" where
  "depositNativeReferral cfg req r bridge v =
     \<lparr>tx_target = bridge, tx_method = ''depositNative'',
      tx_args = [destChainId cfg req, JString (rs_recipient r), JString (referralOrZero req)],
      tx_value = JBigInt v, tx_gas = rs_gasParams r\<rparr>"

definition depositNativeLegacy :: "config \<Rightarrow> transfer \<Rightarrow> resolved \<Rightarrow> string \<Rightarrow> int \<Rightarrow> tx_call" where
  "depositNativeLegacy cfg req r bridge v =
     \<lparr>tx_target = bridge, tx_method = ''depositNative'',
      tx_args = [destChainId cfg req, JString (rs_recipient r)],
      tx_value = JBigInt v, tx_gas = rs_gasParams r\<rparr>"

text \<open>
  Lines 157 to 195. \<^verbatim>\<open>ethers.parseEther(amount.toString())\<close> is evaluated inside the
  \<^verbatim>\<open>try\<close> and again inside the \<^verbatim>\<open>catch\<close>. The contract is made with both
  \<^verbatim>\<open>depositNative\<close> functions.
\<close>

definition nativePath ::
  "remote \<Rightarrow> ethers \<Rightarrow> config \<Rightarrow> transfer \<Rightarrow> resolved \<Rightarrow> state \<Rightarrow> (error + string) \<times> state" where
  "nativePath env lib cfg req r st =
     (case Contract lib (rs_bridge r) of
        Inl e \<Rightarrow> (Inl e, st)
      | Inr bridge \<Rightarrow>
     (case (case parseEther lib (amount req) of
              Inl e \<Rightarrow> (Inl e, st)
            | Inr v \<Rightarrow> executeTransactionOn env lib bridgeNativeAbi
                        (depositNativeReferral cfg req r bridge v) st) of
        (Inr tx, st1) \<Rightarrow> (Inr (rc_hash tx), st1)
      | (Inl caught, st1) \<Rightarrow>
         (case parseEther lib (amount req) of
            Inl e \<Rightarrow> (Inl e, st1)
          | Inr v \<Rightarrow>
             (case executeTransactionOn env lib bridgeNativeAbi
                     (depositNativeLegacy cfg req r bridge v) st1 of
                (Inl e, st2) \<Rightarrow> (Inl e, st2)
              | (Inr tx, st2) \<Rightarrow> (Inr (rc_hash tx), st2)))))"

text \<open>
  Lines 198 to 216: the token contract, its decimals (18 when the read fails), the
  amount in base units and the balance check. The result is the contract handle, the
  decimals and \<^verbatim>\<open>parsedAmount\<close>.
\<close>

definition tokenChecks ::
  "remote \<Rightarrow> ethers \<Rightarrow> config \<Rightarrow> transfer \<Rightarrow> resolved \<Rightarrow> state
     \<Rightarrow> (error + string \<times> nat \<times> int) \<times> state" where
  "tokenChecks env lib cfg req r st =
     (case Contract lib (tokenAddress cfg req) of
        Inl e \<Rightarrow> (Inl e, st)
      | Inr erc20 \<Rightarrow>
     (let decimals = (case readDecimals env (trace st) erc20 of Inl e \<Rightarrow> 18 | Inr d \<Rightarrow> d);
          st1 = issue (Decimals erc20) st
      in case parseUnits lib (amount req) decimals of
           Inl e \<Rightarrow> (Inl e, st1)
         | Inr parsedAmount \<Rightarrow>
        (let st2 = issue (BalanceOf erc20 (rs_sender r)) st1
         in case readBalance env (trace st1) erc20 (rs_sender r) of
              Inl e \<Rightarrow> (Inl e, st2)
            | Inr balance \<Rightarrow>
                if balance < parsedAmount
                then (case formatUnits lib (JBigInt balance) (UnitDecimals decimals) of
                        Inl e \<Rightarrow> (Inl e, st2)
                      | Inr has \<Rightarrow> (Inl (InsufficientBalance (amount req) has), st2))
                else (Inr (erc20, decimals, parsedAmount), st2))))"

definition approveCall :: "transfer \<Rightarrow> resolved \<Rightarrow> string \<Rightarrow> int \<Rightarrow> tx_call" where
  "approveCall req r erc20 parsedAmount =
     \<lparr>tx_target = erc20, tx_method = ''approve'',
      tx_args = [rs_bridge r, JBigInt (parsedAmount * 2)],
      tx_value = JUndefined,
      tx_gas = (rs_gasParams r)\<lparr>gasLimit := JNumber (if isWETH req then 200000 else 100000)\<rparr>\<rparr>"

text \<open>Lines 219 to 231: the allowance read and the approval when it is too small.\<close>

definition handleApproval ::
  "remote \<Rightarrow> ethers \<Rightarrow> transfer \<Rightarrow> resolved \<Rightarrow> string \<Rightarrow> int \<Rightarrow> state \<Rightarrow> (error + unit) \<times> state" where
  "handleApproval env lib req r erc20 parsedAmount st =
     (let st1 = issue (Allowance erc20 (rs_sender r) (rs_bridge r)) st
      in case readAllowance env (trace st) erc20 (rs_sender r) (rs_bridge r) of
           Inl e \<Rightarrow> (Inl e, st1)
         | Inr allowance \<Rightarrow>
             if allowance < parsedAmount
             then (case executeTransactionOn env lib erc20Abi
                          (approveCall req r erc20 parsedAmount) st1 of
                     (Inl e, st2) \<Rightarrow> (Inl e, st2)
                   | (Inr rc, st2) \<Rightarrow> (Inr (), st2))
             else (Inr (), st1))"

text \<open>The two call shapes of the token deposit (lines 246 to 261 and 264 to 278).\<close>

definition depositERC20Referral :: "config \<Rightarrow> transfer \<Rightarrow> resolved \<Rightarrow> string \<Rightarrow> int \<Rightarrow> tx_call" where
  "depositERC20Referral cfg req r bridge parsedAmount =
     \<lparr>tx_target = bridge, tx_method = ''depositERC20'',
      tx_args = [tokenAddress cfg req, JBigInt parsedAmount, destChainId cfg req,
                 JString (rs_recipient r), JString (referralOrZero req)],
      tx_value = JUndefined,
      tx_gas = (rs_gasParams r)\<lparr>gasLimit := JNumber (if isWETH req then 350000 else 300000)\<rparr>\<rparr>"

definition depositERC20Legacy :: "config \<Rightarrow> transfer \<Rightarrow> resolved \<Rightarrow> string \<Rightarrow> int \<Rightarrow> tx_call" where
  "depositERC20Legacy cfg req r bridge parsedAmount =
     \<lparr>tx_target = bridge, tx_method = ''depositERC20'',
      tx_args = [tokenAddress cfg req, JBigInt parsedAmount, destChainId cfg req,
                 JString (rs_recipient r)],
      tx_value = JUndefined,
      tx_gas = (rs_gasParams r)\<lparr>gasLimit := JNumber (if isWETH req then 350000 else 300000)\<rparr>\<rparr>"

text \<open>
  Lines 234 to 281: the deposit, and the retry without the referral. The contract is
  made with both \<^verbatim>\<open>depositERC20\<close> functions.
\<close>

definition tokenDeposit ::
  "remote \<Rightarrow> ethers \<Rightarrow> config \<Rightarrow> transfer \<Rightarrow> resolved \<Rightarrow> int \<Rightarrow> state \<Rightarrow> (error + string) \<times> state" where
  "tokenDeposit env lib cfg req r parsedAmount st =
     (case Contract lib (rs_bridge r) of
        Inl e \<Rightarrow> (Inl e, st)
      | Inr bridge \<Rightarrow>
     (case executeTransactionOn env lib bridgeERC20Abi
             (depositERC20Referral cfg req r bridge parsedAmount) st of
        (Inr tx, st1) \<Rightarrow> (Inr (rc_hash tx), st1)
      | (Inl caught, st1) \<Rightarrow>
         (case executeTransactionOn env lib bridgeERC20Abi
                 (depositERC20Legacy cfg req r bridge parsedAmount) st1 of
            (Inl e, st2) \<Rightarrow> (Inl e, st2)
          | (Inr tx, st2) \<Rightarrow> (Inr (rc_hash tx), st2))))"

definition tokenPath ::
  "remote \<Rightarrow> ethers \<Rightarrow> config \<Rightarrow> transfer \<Rightarrow> resolved \<Rightarrow> state \<Rightarrow> (error + string) \<times> state" where
  "tokenPath env lib cfg req r st =
     (case tokenChecks env lib cfg req r st of
        (Inl e, st1) \<Rightarrow> (Inl e, st1)
      | (Inr (erc20, decimals, parsedAmount), st1) \<Rightarrow>
     (case handleApproval env lib req r erc20 parsedAmount st1 of
        (Inl e, st2) \<Rightarrow> (Inl e, st2)
      | (Inr u, st2) \<Rightarrow> tokenDeposit env lib cfg req r parsedAmount st2))"

text \<open>
  The whole function. The outer \<^verbatim>\<open>catch\<close> (lines 283 to 299) logs the error and
  throws it again, so the result is that of the body.
\<close>

definition sendToken ::
  "remote \<Rightarrow> ethers \<Rightarrow> config \<Rightarrow> transfer \<Rightarrow> state \<Rightarrow> (error + string) \<times> state" where
  "sendToken env lib cfg req st =
     (case validate cfg req of
        Inl e \<Rightarrow> (Inl e, st)
      | Inr key \<Rightarrow>
     (case resolve env lib cfg req key st of
        (Inl e, st1) \<Rightarrow> (Inl e, st1)
      | (Inr r, st1) \<Rightarrow>
          if isNative req then nativePath env lib cfg req r st1
          else tokenPath env lib cfg req r st1))"

text \<open>The transactions submitted in a trace, in order.\<close>

fun submissions :: "request list \<Rightarrow> tx_call list" where
  "submissions [] = []"
| "submissions (Send c # rs) = c # submissions rs"
| "submissions (r # rs) = submissions rs"

section \<open>Observations on traces and states\<close>


text \<open>The liveness probe of a connection answers before the timeout.\<close>

definition answers :: "remote \<Rightarrow> request list \<Rightarrow> provider \<Rightarrow> bool" where
  "answers env tr p = (case probe env tr p of Answered n \<Rightarrow> True | Rejected e \<Rightarrow> False | TimedOut \<Rightarrow> False)"

text \<open>
  The states a process reaches after \<open>st\<close>: by a call of \<^verbatim>\<open>getProvider\<close> for any chain
  identifier, or by any other remote call (which only extends the trace).
\<close>

inductive later :: "remote \<Rightarrow> ethers \<Rightarrow> config \<Rightarrow> state \<Rightarrow> state \<Rightarrow> bool"
  for env :: remote and lib :: ethers and cfg :: config and st :: state where
  later_now: "later env lib cfg st st"
| later_getProvider:
    "later env lib cfg st st1 \<Longrightarrow> later env lib cfg st (snd (getProvider env lib cfg chainId st1))"
| later_issue: "later env lib cfg st st1 \<Longrightarrow> later env lib cfg st (issue r st1)"



section \<open>Concrete runs: a library, a configuration and remote chains\<close>

definition demo_provider :: provider where
  "demo_provider = \<lparr>rpc_url = ''https://rpc.sepolia.example'', net_chainId = Some 11155111, net_name = ''sepolia''\<rparr>"

definition gwei_table :: "(jsval \<times> string) list" where
  "gwei_table =
     [(JBigInt 12, ''0.000000012''),
      (JBigInt 6, ''0.000000006''),
      (JBigInt 15000000000, ''15.0''),
      (JBigInt 30000000000, ''30.0''),
      (JBigInt 2000000000, ''2.0'')]"

definition demo_formatUnits :: "jsval \<Rightarrow> unit_spec \<Rightarrow> error + string" where
  "demo_formatUnits v u =
     (if u = UnitName ''gwei'' then
        (case map_of gwei_table v of
           Some s \<Rightarrow> Inr s
         | None \<Rightarrow> Inl (LibraryError ''invalid BigNumberish value''))
      else if v = JBigInt 1000000000000000000 \<and> u = UnitDecimals 18 then Inr ''1.0''
      else Inl (LibraryError ''invalid BigNumberish value''))"

fun demo_JsonRpcProvider :: "jsval \<Rightarrow> int option \<Rightarrow> string \<Rightarrow> error + provider" where
  "demo_JsonRpcProvider (JString url) n name =
     Inr \<lparr>rpc_url = url, net_chainId = n, net_name = name\<rparr>"
| "demo_JsonRpcProvider v n name = Inl (TypeError ''url.clone is not a function'')"

fun demo_Contract :: "jsval \<Rightarrow> error + string" where
  "demo_Contract (JString a) = Inr a"
| "demo_Contract v = Inl (LibraryError ''invalid value for Contract target'')"

definition demo_lib :: ethers where
  "demo_lib =
     \<lparr>formatUnits = demo_formatUnits,
      parseUnits = (\<lambda>s d. if s = ''1.5'' \<and> d = 18 then Inr 1500000000000000000
                           else Inl (LibraryError ''invalid FixedNumber string value'')),
      parseEther = (\<lambda>s. if s = ''0.01'' then Inr 10000000000000000
                         else Inl (LibraryError ''invalid FixedNumber string value'')),
      getAddress = (\<lambda>a. Inl (LibraryError ''invalid address'')),
      Wallet = (\<lambda>k. if k = ''0xac0974bec39a17e36ba4a6b4d238ff944bacb478cbed5efcae784d7bf4f2ff80''
                      then Inr ''0xf39Fd6e51aad88F6F4ce6aB8827279cffFb92266''
                      else Inl (LibraryError ''invalid private key'')),
      JsonRpcProvider = demo_JsonRpcProvider,
      Contract = demo_Contract\<rparr>"

definition st0 :: state where "st0 = \<lparr>trace = [], providerCache = []\<rparr>"

definition quiet_remote :: "remote" where
  "quiet_remote =
     \<lparr>probe = (\<lambda>tr p. TimedOut),
      feeRead = (\<lambda>tr p. Inl (RemoteError ''network error'')),
      readDecimals = (\<lambda>tr t. Inl (RemoteError ''network error'')),
      readBalance = (\<lambda>tr t a. Inl (RemoteError ''network error'')),
      readAllowance = (\<lambda>tr t a b. Inl (RemoteError ''network error'')),
      submit = (\<lambda>tr c. Inl (RemoteError ''network error'')),
      waitMined = (\<lambda>tr t. Inl (RemoteError ''network error''))\<rparr>"

definition fee_remote :: "int \<Rightarrow> int \<Rightarrow> remote" where
  "fee_remote m p = quiet_remote\<lparr>feeRead :=
      (\<lambda>tr prov. Inr \<lparr>fd_maxFeePerGas = JBigInt m, fd_maxPriorityFeePerGas = JBigInt p\<rparr>)\<rparr>"

definition demo_overrides :: gas where
  "demo_overrides =
     \<lparr>maxFeePerGas = JBigInt 30000000000, maxPriorityFeePerGas = JBigInt 2000000000,
      gasLimit = JNumber 250000\<rparr>"



definition demo_cfg :: config where
  "demo_cfg =
     \<lparr>CHAINS = [''sepolia'' \<mapsto> 11155111, ''holesky'' \<mapsto> 17000],
      RPC_URLS = [''sepolia'' \<mapsto> ''https://rpc.sepolia.example''],
      RPC_FALLBACKS = [''sepolia'' \<mapsto> [''https://fallback.sepolia.example'']],
      UNION_CONTRACT = [''sepolia'' \<mapsto> ''0x5FbDB2315678afecb367f032d93F642f64180aa3''],
      TOKENS_WETH = [''sepolia'' \<mapsto> ''0xfFf9976782d46CC05630D1f6eBAb18b2324d6B14'']\<rparr>"




text \<open>
  A chain whose primary endpoint answers, with live fees 10 and 5, an 18-decimal token
  with the given balance and allowance, and a bridge that rejects the call shapes that
  carry a referral (the last of three, or of five, arguments).
\<close>

definition demo_hash :: string where
  "demo_hash = ''0x88df016429689c079f3b2f6ad39fa052532c56795b733da78a91ebe6a713944b''"

definition demo_submit :: "request list \<Rightarrow> tx_call \<Rightarrow> error + txResponse" where
  "demo_submit tr c =
     (if (tx_method c = ''depositNative'' \<and> length (tx_args c) = 3) \<or>
         (tx_method c = ''depositERC20'' \<and> length (tx_args c) = 5)
      then Inl (RemoteError ''execution reverted'')
      else Inr \<lparr>txr_hash = demo_hash, txr_gasLimit = 500000,
                txr_maxFeePerGas = maxFeePerGas (tx_gas c),
                txr_maxPriorityFeePerGas = maxPriorityFeePerGas (tx_gas c)\<rparr>)"

definition legacy_remote :: "int \<Rightarrow> int \<Rightarrow> remote" where
  "legacy_remote bal allow =
     \<lparr>probe = (\<lambda>tr p. Answered 7000000),
      feeRead = (\<lambda>tr p. Inr \<lparr>fd_maxFeePerGas = JBigInt 10, fd_maxPriorityFeePerGas = JBigInt 5\<rparr>),
      readDecimals = (\<lambda>tr t. Inr 18),
      readBalance = (\<lambda>tr t a. Inr bal),
      readAllowance = (\<lambda>tr t a b. Inr allow),
      submit = demo_submit,
      waitMined = (\<lambda>tr t. Inr \<lparr>rc_hash = txr_hash t, rc_status = Some 1, rc_gasUsed = 21000\<rparr>)\<rparr>"

text \<open>The same chain, but every mined transaction has reverted.\<close>

definition reverting_remote :: remote where
  "reverting_remote = (legacy_remote 0 0)\<lparr>waitMined :=
      (\<lambda>tr t. Inr \<lparr>rc_hash = txr_hash t, rc_status = Some 0, rc_gasUsed = 21000\<rparr>)\<rparr>"

definition demo_key :: string where
  "demo_key = ''0xac0974bec39a17e36ba4a6b4d238ff944bacb478cbed5efcae784d7bf4f2ff80''"

definition demo_sender :: string where
  "demo_sender = ''0xf39Fd6e51aad88F6F4ce6aB8827279cffFb92266''"

definition native_req :: transfer where
  "native_req =
     \<lparr>sourceChain = ''sepolia'', destChain = ''holesky'', asset = ''native'', amount = ''0.01'',
      privateKey = Some demo_key, gasSettings = no_overrides, recipient = None, referral = None\<rparr>"

definition weth_req :: transfer where
  "weth_req = native_req\<lparr>asset := ''WETH'', amount := ''1.5''\<rparr>"

definition demo_resolved :: resolved where
  "demo_resolved =
     \<lparr>rs_provider = demo_provider, rs_sender = demo_sender, rs_recipient = demo_sender,
      rs_gasParams = \<lparr>maxFeePerGas = JBigInt 12, maxPriorityFeePerGas = JBigInt 6,
                       gasLimit = JNumber 500000\<rparr>,
      rs_bridge = JString ''0x5FbDB2315678afecb367f032d93F642f64180aa3''\<rparr>"

definition demo_approve :: tx_call where
  "demo_approve =
     \<lparr>tx_target = ''0xfFf9976782d46CC05630D1f6eBAb18b2324d6B14'', tx_method = ''approve'',
      tx_args = [JString ''0x5FbDB2315678afecb367f032d93F642f64180aa3'',
                 JBigInt 3000000000000000000],
      tx_value = JUndefined,
      tx_gas = \<lparr>maxFeePerGas = JBigInt 12, maxPriorityFeePerGas = JBigInt 6,
                 gasLimit = JNumber 200000\<rparr>\<rparr>"

definition st_resolved :: state where
  "st_resolved = \<lparr>trace = [GetBlockNumber demo_provider, GetFeeData demo_provider],
                  providerCache = [(''sepolia'', demo_provider)]\<rparr>"

definition demo_bridge :: string where
  "demo_bridge = ''0x5FbDB2315678afecb367f032d93F642f64180aa3''"

definition demo_weth :: string where
  "demo_weth = ''0xfFf9976782d46CC05630D1f6eBAb18b2324d6B14''"

definition demo_receipt :: receipt where
  "demo_receipt = \<lparr>rc_hash = demo_hash, rc_status = Some 1, rc_gasUsed = 21000\<rparr>"



text \<open>
  A token transfer to a destination that has no entry in \<^verbatim>\<open>CHAINS\<close> and names an
  inherited property.
\<close>

definition inherited_req :: transfer where
  "inherited_req = weth_req\<lparr>destChain := ''constructor''\<rparr>"
section \<open>Fee estimation\<close>

lemma bigint_div_nonneg: "0 \<le> a \<Longrightarrow> 0 < b \<Longrightarrow> bigint_div a b = a div b"
  by (cases "a = 0") (simp_all add: bigint_div_def)

lemma bigint_div_125_nonzero: "n \<noteq> 0 \<Longrightarrow> bigint_div (n * 125) 100 \<noteq> 0"
proof -
  assume n: "n \<noteq> 0"
  then have "100 \<le> \<bar>n * 125\<bar>" by (simp add: abs_mult)
  then have "0 < \<bar>n * 125\<bar> div 100" by (simp add: pos_imp_zdiv_pos_iff)
  with n show ?thesis by (simp add: bigint_div_def sgn_if)
qed

lemma pickFee_unset:
  "m \<noteq> 0 \<Longrightarrow> pickFee JUndefined (JBigInt m) d = Inr (JBigInt (bigint_div (m * 125) 100))"
  by (simp add: pickFee_def bigint_div_125_nonzero)

lemma pickFee_truthy: "truthy ov \<Longrightarrow> pickFee ov live d = Inr ov"
  by (simp add: pickFee_def)

lemma calculatedParams_overrides:
  assumes "calculatedParams lib fd ov = Inr p"
  shows "(truthy (maxFeePerGas ov) \<longrightarrow> maxFeePerGas p = maxFeePerGas ov) \<and>
         (truthy (maxPriorityFeePerGas ov) \<longrightarrow> maxPriorityFeePerGas p = maxPriorityFeePerGas ov) \<and>
         (truthy (gasLimit ov) \<longrightarrow> gasLimit p = gasLimit ov)"
  using assms
  by (auto simp: calculatedParams_def Let_def pickFee_truthy split: sum.splits)




text \<open>
  C7, amended. With live fee data whose max fee \<open>m\<close> and priority fee \<open>p\<close> are non-zero
  BigInts, no overrides, and a log line that formats, the result is \<open>m * 125 / 100\<close>,
  \<open>p * 125 / 100\<close> (BigInt division; for positive values it is \<open>div\<close>, see
  \<open>bigint_div_nonneg\<close>) and the gas limit 500000. Live values 10 and 5 give 12 and 6.
\<close>

theorem getGasParams_live_markup:
  assumes "feeRead env (trace st) prov =
             Inr \<lparr>fd_maxFeePerGas = JBigInt m, fd_maxPriorityFeePerGas = JBigInt p\<rparr>"
    and "m \<noteq> 0" and "p \<noteq> 0"
    and "formatUnits lib (JBigInt (bigint_div (m * 125) 100)) (UnitName ''gwei'') = Inr s1"
    and "formatUnits lib (JBigInt (bigint_div (p * 125) 100)) (UnitName ''gwei'') = Inr s2"
  shows "fst (getGasParams env lib prov no_overrides st) =
           Inr \<lparr>maxFeePerGas = JBigInt (bigint_div (m * 125) 100),
                maxPriorityFeePerGas = JBigInt (bigint_div (p * 125) 100),
                gasLimit = JNumber 500000\<rparr>"
  using assms
  by (simp add: getGasParams_def getGasParams_try_def calculatedParams_def no_overrides_def
      pickFee_unset debugLog_def)

theorem getGasParams_live_markup_witness:
  "fst (getGasParams (fee_remote 10 5) demo_lib demo_provider no_overrides st0) =
     Inr \<lparr>maxFeePerGas = JBigInt 12, maxPriorityFeePerGas = JBigInt 6, gasLimit = JNumber 500000\<rparr>"
proof -
  have a: "feeRead (fee_remote 10 5) (trace st0) demo_provider =
             Inr \<lparr>fd_maxFeePerGas = JBigInt 10, fd_maxPriorityFeePerGas = JBigInt 5\<rparr>"
    by (simp add: fee_remote_def)
  have b: "formatUnits demo_lib (JBigInt (bigint_div (10 * 125) 100)) (UnitName ''gwei'')
             = Inr ''0.000000012''"
    by (simp add: demo_lib_def demo_formatUnits_def gwei_table_def bigint_div_def)
  have c: "formatUnits demo_lib (JBigInt (bigint_div (5 * 125) 100)) (UnitName ''gwei'')
             = Inr ''0.000000006''"
    by (simp add: demo_lib_def demo_formatUnits_def gwei_table_def bigint_div_def)
  from getGasParams_live_markup [OF a _ _ b c]
  show ?thesis by (simp add: bigint_div_def)
qed

text \<open>
  A live value of zero is available data, but \<open>0n * 125n / 100n\<close> is falsy and the
  \<^verbatim>\<open>||\<close> chain goes on to the fixed fallback: a live priority fee of 0 gives 15 gwei.
\<close>

theorem getGasParams_zero_live_counterexample:
  "fst (getGasParams (fee_remote 10 0) demo_lib demo_provider no_overrides st0) =
     Inr \<lparr>maxFeePerGas = JBigInt 12, maxPriorityFeePerGas = JBigInt 15000000000,
          gasLimit = JNumber 500000\<rparr> \<and>
   JBigInt 15000000000 \<noteq> JBigInt ((0 * 125) div 100)"
  by (simp add: getGasParams_def getGasParams_try_def calculatedParams_def no_overrides_def
      pickFee_def debugLog_def fee_remote_def quiet_remote_def demo_lib_def demo_formatUnits_def
      gwei_table_def bigint_div_def parseUnits_gwei_def)

text \<open>
  C9, amended. When the fee data read succeeds and the \<^verbatim>\<open>try\<close> block completes,
  every component whose override is truthy (not undefined, null, 0, 0n or the empty
  string) equals that override. When the fee data read throws, the result is the fixed
  values, whatever the overrides.
\<close>

theorem getGasParams_override_kept:
  "(feeRead env (trace st) prov = Inr fd \<and> calculatedParams lib fd overrideSettings = Inr p \<longrightarrow>
      fst (getGasParams env lib prov overrideSettings st) = Inr p \<and>
      (truthy (maxFeePerGas overrideSettings) \<longrightarrow>
         maxFeePerGas p = maxFeePerGas overrideSettings) \<and>
      (truthy (maxPriorityFeePerGas overrideSettings) \<longrightarrow>
         maxPriorityFeePerGas p = maxPriorityFeePerGas overrideSettings) \<and>
      (truthy (gasLimit overrideSettings) \<longrightarrow> gasLimit p = gasLimit overrideSettings)) \<and>
   (feeRead env (trace st) prov = Inl e \<longrightarrow>
      fst (getGasParams env lib prov overrideSettings st) = Inr defaultParams)"
proof (intro conjI impI)
  assume h: "feeRead env (trace st) prov = Inr fd \<and>
             calculatedParams lib fd overrideSettings = Inr p"
  then show "fst (getGasParams env lib prov overrideSettings st) = Inr p"
    by (simp add: getGasParams_def getGasParams_try_def)
  from h have c: "calculatedParams lib fd overrideSettings = Inr p" by simp
  {
    assume "truthy (maxFeePerGas overrideSettings)"
    with calculatedParams_overrides [OF c]
    show "maxFeePerGas p = maxFeePerGas overrideSettings" by simp
  }
  {
    assume "truthy (maxPriorityFeePerGas overrideSettings)"
    with calculatedParams_overrides [OF c]
    show "maxPriorityFeePerGas p = maxPriorityFeePerGas overrideSettings" by simp
  }
  {
    assume "truthy (gasLimit overrideSettings)"
    with calculatedParams_overrides [OF c]
    show "gasLimit p = gasLimit overrideSettings" by simp
  }
next
  assume "feeRead env (trace st) prov = Inl e"
  then show "fst (getGasParams env lib prov overrideSettings st) = Inr defaultParams"
    by (simp add: getGasParams_def getGasParams_try_def)
qed

theorem getGasParams_override_kept_witness:
  "feeRead (fee_remote 10 5) (trace st0) demo_provider =
     Inr \<lparr>fd_maxFeePerGas = JBigInt 10, fd_maxPriorityFeePerGas = JBigInt 5\<rparr> \<and>
   fst (getGasParams (fee_remote 10 5) demo_lib demo_provider demo_overrides st0) =
     Inr demo_overrides \<and>
   maxFeePerGas demo_overrides = JBigInt 30000000000 \<and>
   maxPriorityFeePerGas demo_overrides = JBigInt 2000000000 \<and>
   gasLimit demo_overrides = JNumber 250000 \<and>
   feeRead quiet_remote (trace st0) demo_provider = Inl (RemoteError ''network error'') \<and>
   fst (getGasParams quiet_remote demo_lib demo_provider demo_overrides st0) = Inr defaultParams"
proof -
  let ?fd = "\<lparr>fd_maxFeePerGas = JBigInt 10, fd_maxPriorityFeePerGas = JBigInt 5\<rparr>"
  have a: "feeRead (fee_remote 10 5) (trace st0) demo_provider = Inr ?fd"
    by (simp add: fee_remote_def)
  have b: "calculatedParams demo_lib ?fd demo_overrides = Inr demo_overrides"
    by (simp add: calculatedParams_def demo_overrides_def pickFee_def debugLog_def demo_lib_def
        demo_formatUnits_def gwei_table_def)
  have c: "feeRead quiet_remote (trace st0) demo_provider = Inl (RemoteError ''network error'')"
    by (simp add: quiet_remote_def)
  from getGasParams_override_kept [where env = "fee_remote 10 5" and st = st0
      and prov = demo_provider and fd = ?fd and lib = demo_lib
      and overrideSettings = demo_overrides and p = demo_overrides, THEN conjunct1] a b
  have d: "fst (getGasParams (fee_remote 10 5) demo_lib demo_provider demo_overrides st0) =
             Inr demo_overrides"
    by simp
  from getGasParams_override_kept [where env = quiet_remote and st = st0
      and prov = demo_provider and lib = demo_lib and overrideSettings = demo_overrides
      and e = "RemoteError ''network error''", THEN conjunct2] c
  have e: "fst (getGasParams quiet_remote demo_lib demo_provider demo_overrides st0) =
             Inr defaultParams"
    by simp
  from a c d e show ?thesis by (simp add: demo_overrides_def)
qed

text \<open>
  Three calls with an override that is not returned. The fee data read throws: the
  \<^verbatim>\<open>catch\<close> returns the fixed values and the overrides are not looked at. The override
  of the priority fee is \<open>0n\<close>: it is falsy, and the scaled live value is taken. The
  override of the gas limit is the BigInt \<open>300000n\<close>: \<^verbatim>\<open>JSON.stringify\<close> throws in
  the log line, and the \<^verbatim>\<open>catch\<close> returns the fixed values.
\<close>

theorem getGasParams_override_counterexample:
  "maxFeePerGas demo_overrides = JBigInt 30000000000 \<and>
   fst (getGasParams quiet_remote demo_lib demo_provider demo_overrides st0) =
     Inr \<lparr>maxFeePerGas = JBigInt 20000000000, maxPriorityFeePerGas = JBigInt 15000000000,
          gasLimit = JNumber 500000\<rparr> \<and>
   fst (getGasParams (fee_remote 10 5) demo_lib demo_provider
          (no_overrides\<lparr>maxPriorityFeePerGas := JBigInt 0\<rparr>) st0) =
     Inr \<lparr>maxFeePerGas = JBigInt 12, maxPriorityFeePerGas = JBigInt 6,
          gasLimit = JNumber 500000\<rparr> \<and>
   fst (getGasParams (fee_remote 10 5) demo_lib demo_provider
          (no_overrides\<lparr>gasLimit := JBigInt 300000\<rparr>) st0) =
     Inr \<lparr>maxFeePerGas = JBigInt 20000000000, maxPriorityFeePerGas = JBigInt 15000000000,
          gasLimit = JNumber 500000\<rparr>"
proof -
  have a: "fst (getGasParams quiet_remote demo_lib demo_provider demo_overrides st0) =
     Inr \<lparr>maxFeePerGas = JBigInt 20000000000, maxPriorityFeePerGas = JBigInt 15000000000,
          gasLimit = JNumber 500000\<rparr>"
    by (simp add: getGasParams_def getGasParams_try_def quiet_remote_def defaultParams_def
        parseUnits_gwei_def)
  have f: "formatUnits demo_lib (JBigInt 12) (UnitName ''gwei'') = Inr ''0.000000012''"
    "formatUnits demo_lib (JBigInt 6) (UnitName ''gwei'') = Inr ''0.000000006''"
    by (simp_all add: demo_lib_def demo_formatUnits_def gwei_table_def)
  have b: "fst (getGasParams (fee_remote 10 5) demo_lib demo_provider
          (no_overrides\<lparr>maxPriorityFeePerGas := JBigInt 0\<rparr>) st0) =
     Inr \<lparr>maxFeePerGas = JBigInt 12, maxPriorityFeePerGas = JBigInt 6,
          gasLimit = JNumber 500000\<rparr>"
    by (simp add: getGasParams_def getGasParams_try_def calculatedParams_def no_overrides_def
        pickFee_def debugLog_def fee_remote_def bigint_div_def f)
  have c: "fst (getGasParams (fee_remote 10 5) demo_lib demo_provider
          (no_overrides\<lparr>gasLimit := JBigInt 300000\<rparr>) st0) =
     Inr \<lparr>maxFeePerGas = JBigInt 20000000000, maxPriorityFeePerGas = JBigInt 15000000000,
          gasLimit = JNumber 500000\<rparr>"
    by (simp add: getGasParams_def getGasParams_try_def calculatedParams_def no_overrides_def
        pickFee_def debugLog_def fee_remote_def bigint_div_def f defaultParams_def
        parseUnits_gwei_def)
  from a b c show ?thesis by (simp add: demo_overrides_def)
qed

section \<open>Endpoint resolution\<close>

lemma issue_simps [simp]:
  "trace (issue r st) = trace st @ [r]"
  "providerCache (issue r st) = providerCache st"
  by (simp_all add: issue_def)

lemma tryEndpoints_success:
  "tryEndpoints env lib cfg c urls st = (Inr p, st') \<Longrightarrow>
   \<exists>failed rest.
      List.map_filter
        (\<lambda>url. case JsonRpcProvider lib url (chainNumber cfg c) (toLowerCase c) of
                  Inl e \<Rightarrow> None | Inr q \<Rightarrow> Some q) urls = failed @ p # rest \<and>
      trace st' = trace st @ map GetBlockNumber (failed @ [p]) \<and>
      (\<forall>i < length failed.
          \<not> answers env (trace st @ map GetBlockNumber (take i failed)) (failed ! i)) \<and>
      answers env (trace st @ map GetBlockNumber failed) p \<and>
      providerCache st' = AList.update c p (providerCache st)"
proof (induction urls arbitrary: st)
  case Nil
  then show ?case by simp
next
  case (Cons url urls)
  let ?mk = "\<lambda>url. case JsonRpcProvider lib url (chainNumber cfg c) (toLowerCase c) of
                  Inl e \<Rightarrow> None | Inr q \<Rightarrow> Some q"
  show ?case
  proof (cases "JsonRpcProvider lib url (chainNumber cfg c) (toLowerCase c)")
    case (Inl e)
    with Cons.prems have "tryEndpoints env lib cfg c urls st = (Inr p, st')" by simp
    from Cons.IH [OF this] Inl show ?thesis by simp
  next
    case (Inr q)
    show ?thesis
    proof (cases "answers env (trace st) q")
      case True
      with Cons.prems Inr have "p = q"
        and "st' = (issue (GetBlockNumber q) st)\<lparr>providerCache := AList.update c q (providerCache st)\<rparr>"
        by (auto simp: answers_def split: probe_outcome.splits)
      with True Inr have
        "List.map_filter ?mk (url # urls) = [] @ p # List.map_filter ?mk urls \<and>
         trace st' = trace st @ map GetBlockNumber ([] @ [p]) \<and>
         (\<forall>i < length ([]::provider list).
            \<not> answers env (trace st @ map GetBlockNumber (take i [])) ([] ! i)) \<and>
         answers env (trace st @ map GetBlockNumber []) p \<and>
         providerCache st' = AList.update c p (providerCache st)"
        by simp
      then show ?thesis by blast
    next
      case False
      with Cons.prems Inr
      have "tryEndpoints env lib cfg c urls (issue (GetBlockNumber q) st) = (Inr p, st')"
        by (auto simp: answers_def split: probe_outcome.splits)
      from Cons.IH [OF this] obtain failed rest where
        f: "List.map_filter ?mk urls = failed @ p # rest"
        and t: "trace st' = trace st @ GetBlockNumber q # map GetBlockNumber (failed @ [p])"
        and n: "\<forall>i < length failed.
                  \<not> answers env (trace st @ GetBlockNumber q # map GetBlockNumber (take i failed)) (failed ! i)"
        and a: "answers env (trace st @ GetBlockNumber q # map GetBlockNumber failed) p"
        and u: "providerCache st' = AList.update c p (providerCache st)"
        by auto
      have n': "\<forall>i < length (q # failed).
                  \<not> answers env (trace st @ map GetBlockNumber (take i (q # failed))) ((q # failed) ! i)"
      proof (intro allI impI)
        fix i assume "i < length (q # failed)"
        then show "\<not> answers env (trace st @ map GetBlockNumber (take i (q # failed))) ((q # failed) ! i)"
          using False n by (cases i) auto
      qed
      have "List.map_filter ?mk (url # urls) = (q # failed) @ p # rest \<and>
            trace st' = trace st @ map GetBlockNumber ((q # failed) @ [p]) \<and>
            answers env (trace st @ map GetBlockNumber (q # failed)) p \<and>
            providerCache st' = AList.update c p (providerCache st)"
        using f t a u Inr by simp
      with n' show ?thesis by blast
    qed
  qed
qed

lemma tryEndpoints_failure:
  "tryEndpoints env lib cfg c urls st = (Inl e, st') \<Longrightarrow>
   e = AllRpcEndpointsFailed c \<and> providerCache st' = providerCache st \<and>
   trace st' = trace st @ map GetBlockNumber
      (List.map_filter
        (\<lambda>url. case JsonRpcProvider lib url (chainNumber cfg c) (toLowerCase c) of
                  Inl e \<Rightarrow> None | Inr q \<Rightarrow> Some q) urls)"
proof (induction urls arbitrary: st)
  case Nil
  then show ?case by simp
next
  case (Cons url urls)
  show ?case
  proof (cases "JsonRpcProvider lib url (chainNumber cfg c) (toLowerCase c)")
    case (Inl e')
    with Cons.prems have "tryEndpoints env lib cfg c urls st = (Inl e, st')" by simp
    from Cons.IH [OF this] Inl show ?thesis by simp
  next
    case (Inr q)
    with Cons.prems
    have "tryEndpoints env lib cfg c urls (issue (GetBlockNumber q) st) = (Inl e, st')"
      by (auto split: probe_outcome.splits)
    from Cons.IH [OF this] Inr show ?thesis by simp
  qed
qed





lemma getProvider_spread:
  "map_of (providerCache st) c = None \<Longrightarrow> spreadThrows cfg c \<Longrightarrow>
   getProvider env lib cfg c st = (Inl (TypeError ''RPC_FALLBACKS[chainId] is not iterable''), st)"
  by (simp add: getProvider_def)

lemma getProvider_cases:
  obtains (hit) p where "map_of (providerCache st) c = Some p"
      "getProvider env lib cfg c st = (Inr p, st)"
    | (spread) "map_of (providerCache st) c = None" "spreadThrows cfg c"
      "getProvider env lib cfg c st =
         (Inl (TypeError ''RPC_FALLBACKS[chainId] is not iterable''), st)"
    | (loop) "map_of (providerCache st) c = None" "\<not> spreadThrows cfg c"
      "getProvider env lib cfg c st = tryEndpoints env lib cfg c (endpoints cfg c) st"
  by (cases "map_of (providerCache st) c"; cases "spreadThrows cfg c")
    (auto simp: getProvider_def)


























lemma demo_endpoints:
  "endpoints demo_cfg ''sepolia'' =
     [JString ''https://rpc.sepolia.example'', JString ''https://fallback.sepolia.example'',
      JString ''https://ethereum-sepolia.publicnode.com'']"
  "\<not> spreadThrows demo_cfg ''sepolia''"
  "chainNumber demo_cfg ''sepolia'' = Some 11155111"
  by (simp_all add: endpoints_def spreadThrows_def chainNumber_def stringRead_def readProp_def
      demo_cfg_def)








section \<open>Transaction execution and the transfer\<close>

text \<open>The transactions each step adds to the trace.\<close>

lemma submissions_append [simp]:
  "submissions (xs @ ys) = submissions xs @ submissions ys"
  by (induction xs rule: submissions.induct) simp_all

lemma submissions_probes [simp]: "submissions (map GetBlockNumber ps) = []"
  by (induction ps) simp_all

lemma executeTransaction_submissions:
  "submissions (trace (snd (executeTransaction env lib c st))) = submissions (trace st) @ [c]"
  by (simp add: executeTransaction_def Let_def split: sum.splits)

lemma executeTransaction_submissions':
  "executeTransaction env lib c st = (x, st') \<Longrightarrow>
   submissions (trace st') = submissions (trace st) @ [c]"
  using executeTransaction_submissions [of env lib c st] by simp

text \<open>The lookup finds the calls that carry every input, and no function for the retries.\<close>

lemma lookup_approve:
  "executeTransactionOn env lib erc20Abi (approveCall req r erc20 parsedAmount) st =
     executeTransaction env lib (approveCall req r erc20 parsedAmount) st"
  by (simp add: executeTransactionOn_def getFunction_def matchingFragments_def erc20Abi_def
      approveCall_def)

lemma lookup_depositNativeReferral:
  "executeTransactionOn env lib bridgeNativeAbi (depositNativeReferral cfg req r bridge v) st =
     executeTransaction env lib (depositNativeReferral cfg req r bridge v) st"
  by (simp add: executeTransactionOn_def getFunction_def matchingFragments_def
      bridgeNativeAbi_def depositNativeReferral_def)

lemma lookup_depositNativeLegacy:
  "executeTransactionOn env lib bridgeNativeAbi (depositNativeLegacy cfg req r bridge v) st =
     (Inl (LibraryError ''ambiguous function description''), st)"
  by (simp add: executeTransactionOn_def getFunction_def matchingFragments_def
      bridgeNativeAbi_def depositNativeLegacy_def)

lemma lookup_depositERC20Referral:
  "executeTransactionOn env lib bridgeERC20Abi
     (depositERC20Referral cfg req r bridge parsedAmount) st =
     executeTransaction env lib (depositERC20Referral cfg req r bridge parsedAmount) st"
  by (simp add: executeTransactionOn_def getFunction_def matchingFragments_def
      bridgeERC20Abi_def depositERC20Referral_def)

lemma lookup_depositERC20Legacy:
  "executeTransactionOn env lib bridgeERC20Abi
     (depositERC20Legacy cfg req r bridge parsedAmount) st =
     (Inl (LibraryError ''ambiguous function description''), st)"
  by (simp add: executeTransactionOn_def getFunction_def matchingFragments_def
      bridgeERC20Abi_def depositERC20Legacy_def)

text \<open>
  So a deposit whose first call has failed ends in the error of the lookup, in the state
  the first call left.
\<close>

lemma nativePath_retry:
  assumes "Contract lib (rs_bridge r) = Inr bridge"
    and "parseEther lib (amount req) = Inr v"
    and "executeTransaction env lib (depositNativeReferral cfg req r bridge v) st = (Inl e1, st1)"
  shows "nativePath env lib cfg req r st =
           (Inl (LibraryError ''ambiguous function description''), st1)"
  using assms
  by (simp add: nativePath_def lookup_depositNativeReferral lookup_depositNativeLegacy)

lemma tokenDeposit_retry:
  assumes "Contract lib (rs_bridge r) = Inr bridge"
    and "executeTransaction env lib (depositERC20Referral cfg req r bridge parsedAmount) st
           = (Inl e1, st1)"
  shows "tokenDeposit env lib cfg req r parsedAmount st =
           (Inl (LibraryError ''ambiguous function description''), st1)"
  using assms
  by (simp add: tokenDeposit_def lookup_depositERC20Referral lookup_depositERC20Legacy)

lemma getProvider_submissions:
  "getProvider env lib cfg c st = (x, st') \<Longrightarrow> submissions (trace st') = submissions (trace st)"
  by (cases rule: getProvider_cases [of st c env lib cfg]; cases x)
    (auto dest!: tryEndpoints_failure tryEndpoints_success)

lemma getGasParams_submissions:
  "getGasParams env lib prov ov st = (x, st') \<Longrightarrow> submissions (trace st') = submissions (trace st)"
  by (auto simp: getGasParams_def split: sum.splits)

lemma resolve_submissions:
  "resolve env lib cfg req key st = (x, st') \<Longrightarrow> submissions (trace st') = submissions (trace st)"
  unfolding resolve_def Let_def
  by (auto split: sum.splits prod.splits option.splits if_splits
      dest!: getProvider_submissions getGasParams_submissions)

lemma tokenChecks_submissions:
  "tokenChecks env lib cfg req r st = (x, st') \<Longrightarrow> submissions (trace st') = submissions (trace st)"
  unfolding tokenChecks_def
  by (auto simp: Let_def split: sum.splits if_splits)

lemma handleApproval_submissions:
  assumes "readAllowance env (trace st) erc20 (rs_sender r) (rs_bridge r) = Inr allowance"
    and "handleApproval env lib req r erc20 parsedAmount st = (x, st')"
  shows "submissions (trace st') =
           submissions (trace st) @
             (if allowance < parsedAmount then [approveCall req r erc20 parsedAmount] else [])"
  using assms
  by (auto simp: handleApproval_def lookup_approve Let_def
      split: if_splits prod.splits sum.splits dest!: executeTransaction_submissions')

lemma tokenDeposit_submissions:
  assumes "tokenDeposit env lib cfg req r parsedAmount st = (x, st')"
  shows "\<exists>deposits. submissions (trace st') = submissions (trace st) @ deposits \<and>
           (\<forall>c \<in> set deposits. tx_method c = ''depositERC20'')"
proof (cases "Contract lib (rs_bridge r)")
  case (Inl e)
  with assms show ?thesis by (simp add: tokenDeposit_def)
next
  case (Inr bridge)
  obtain y st1 where
    first: "executeTransaction env lib (depositERC20Referral cfg req r bridge parsedAmount) st = (y, st1)"
    by (cases "executeTransaction env lib (depositERC20Referral cfg req r bridge parsedAmount) st")
  note s1 = executeTransaction_submissions' [OF first]
  from assms Inr first have "st' = st1"
    by (cases y)
      (simp_all add: tokenDeposit_def lookup_depositERC20Referral lookup_depositERC20Legacy)
  with s1 show ?thesis by (simp add: depositERC20Referral_def)
qed

text \<open>The concrete runs, step by step.\<close>

lemma demo_formats:
  "formatUnits demo_lib (JBigInt 12) (UnitName ''gwei'') = Inr ''0.000000012''"
  "formatUnits demo_lib (JBigInt 6) (UnitName ''gwei'') = Inr ''0.000000006''"
  by (simp_all add: demo_lib_def demo_formatUnits_def gwei_table_def)

lemma demo_key_ok: "matchesKeyPattern demo_key"
  by (simp add: matchesKeyPattern_def demo_key_def isHexDigit_def)

lemma demo_chains:
  "\<not> chainUnknown demo_cfg ''sepolia''"
  "\<not> chainUnknown demo_cfg ''holesky''"
  "\<not> chainUnknown demo_cfg ''constructor''"
  "chainUnknown demo_cfg ''mainnet''"
  "CHAINS demo_cfg ''constructor'' = None"
  "CHAINS demo_cfg ''mainnet'' = None"
  by (simp_all add: chainUnknown_def readProp_def objectPrototypeNames_def demo_cfg_def)

lemma demo_validate:
  "validate demo_cfg native_req = Inr demo_key"
  "validate demo_cfg weth_req = Inr demo_key"
  using demo_key_ok
  by (simp_all add: validate_def demo_chains native_req_def weth_req_def)

lemma demo_getProvider:
  "getProvider (legacy_remote b a) demo_lib demo_cfg ''sepolia'' st0 =
     (Inr demo_provider,
      \<lparr>trace = [GetBlockNumber demo_provider], providerCache = [(''sepolia'', demo_provider)]\<rparr>)"
  by (simp add: getProvider_def demo_endpoints st0_def demo_lib_def toLowerCase_def
      legacy_remote_def demo_provider_def issue_def)

lemma demo_getGasParams:
  "getGasParams (legacy_remote b a) demo_lib demo_provider no_overrides st =
     (Inr \<lparr>maxFeePerGas = JBigInt 12, maxPriorityFeePerGas = JBigInt 6, gasLimit = JNumber 500000\<rparr>,
      issue (GetFeeData demo_provider) st)"
  by (simp add: getGasParams_def getGasParams_try_def calculatedParams_def no_overrides_def
      pickFee_def debugLog_def legacy_remote_def demo_formats bigint_div_def)

lemma demo_wallet: "Wallet demo_lib demo_key = Inr demo_sender"
  by (simp add: demo_lib_def demo_key_def demo_sender_def)

lemma demo_union: "stringRead (UNION_CONTRACT demo_cfg) ''sepolia'' = JString demo_bridge"
  by (simp add: stringRead_def readProp_def demo_cfg_def demo_bridge_def)

lemma demo_resolve_sepolia:
  "sourceChain req = ''sepolia'' \<Longrightarrow> gasSettings req = no_overrides \<Longrightarrow> recipient req = None \<Longrightarrow>
   resolve (legacy_remote b a) demo_lib demo_cfg req demo_key st0 = (Inr demo_resolved, st_resolved)"
  by (simp add: resolve_def demo_getProvider demo_getGasParams demo_wallet demo_union
      demo_resolved_def st_resolved_def issue_def demo_bridge_def)

lemma demo_resolve:
  "resolve (legacy_remote b a) demo_lib demo_cfg native_req demo_key st0 = (Inr demo_resolved, st_resolved)"
  "resolve (legacy_remote b a) demo_lib demo_cfg weth_req demo_key st0 = (Inr demo_resolved, st_resolved)"
  by (rule demo_resolve_sepolia; simp add: native_req_def weth_req_def)+

lemma demo_execute_rejected:
  "(tx_method c = ''depositNative'' \<and> length (tx_args c) = 3) \<or>
   (tx_method c = ''depositERC20'' \<and> length (tx_args c) = 5) \<Longrightarrow>
   executeTransaction (legacy_remote b a) demo_lib c st =
     (Inl (RemoteError ''execution reverted''), issue (Send c) st)"
  by (simp add: executeTransaction_def legacy_remote_def demo_submit_def)

lemma demo_execute_mined:
  "\<not> ((tx_method c = ''depositNative'' \<and> length (tx_args c) = 3) \<or>
      (tx_method c = ''depositERC20'' \<and> length (tx_args c) = 5)) \<Longrightarrow>
   maxFeePerGas (tx_gas c) = JBigInt 12 \<Longrightarrow> maxPriorityFeePerGas (tx_gas c) = JBigInt 6 \<Longrightarrow>
   executeTransaction (legacy_remote b a) demo_lib c st =
     (Inr demo_receipt,
      issue (Wait \<lparr>txr_hash = demo_hash, txr_gasLimit = 500000, txr_maxFeePerGas = JBigInt 12,
                   txr_maxPriorityFeePerGas = JBigInt 6\<rparr>) (issue (Send c) st))"
  by (simp add: executeTransaction_def legacy_remote_def demo_submit_def demo_formats
      demo_receipt_def Let_def)

lemma demo_parse:
  "parseEther demo_lib ''0.01'' = Inr 10000000000000000"
  "parseUnits demo_lib ''1.5'' 18 = Inr 1500000000000000000"
  "Contract demo_lib (JString a) = Inr a"
  by (simp_all add: demo_lib_def)

lemma demo_token_facts:
  "\<not> isNative weth_req"
  "tokenAddress demo_cfg weth_req = JString demo_weth"
  "amount weth_req = ''1.5''"
  "rs_sender demo_resolved = demo_sender"
  "rs_bridge demo_resolved = JString demo_bridge"
  "maxFeePerGas (rs_gasParams demo_resolved) = JBigInt 12"
  "maxPriorityFeePerGas (rs_gasParams demo_resolved) = JBigInt 6"
  by (simp_all add: isNative_def isWETH_def tokenAddress_def weth_req_def native_req_def
      stringRead_def readProp_def demo_cfg_def demo_weth_def demo_resolved_def demo_bridge_def)

lemma demo_tokenChecks:
  "1500000000000000000 \<le> b \<Longrightarrow>
   tokenChecks (legacy_remote b a) demo_lib demo_cfg weth_req demo_resolved st =
     (Inr (demo_weth, 18, 1500000000000000000),
      issue (BalanceOf demo_weth demo_sender) (issue (Decimals demo_weth) st))"
  by (simp add: tokenChecks_def demo_token_facts demo_parse legacy_remote_def Let_def)

text \<open>
  C2. When a transaction has been submitted and mined and the receipt's status is not 1,
  \<^verbatim>\<open>executeTransaction\<close> fails with "Transaction failed on-chain". It reports
  success only with the receipt that \<^verbatim>\<open>wait()\<close> resolved, and only when its status is 1.
\<close>

theorem executeTransaction_reverted_fails:
  "(submit env (trace st) call = Inr txResponse \<and>
    formatUnits lib (txr_maxFeePerGas txResponse) (UnitName ''gwei'') = Inr g1 \<and>
    formatUnits lib (txr_maxPriorityFeePerGas txResponse) (UnitName ''gwei'') = Inr g2 \<and>
    waitMined env (trace st @ [Send call]) txResponse = Inr rc \<and>
    rc_status rc \<noteq> Some 1 \<longrightarrow>
      fst (executeTransaction env lib call st) = Inl TransactionFailedOnChain) \<and>
   (fst (executeTransaction env lib call st) = Inr rc' \<longrightarrow>
      rc_status rc' = Some 1 \<and>
      (\<exists>txr. submit env (trace st) call = Inr txr \<and>
             waitMined env (trace st @ [Send call]) txr = Inr rc'))"
  by (auto simp: executeTransaction_def Let_def split: sum.splits if_splits)

theorem executeTransaction_reverted_fails_witness:
  "submit reverting_remote (trace st_resolved) demo_approve =
     Inr \<lparr>txr_hash = demo_hash, txr_gasLimit = 500000, txr_maxFeePerGas = JBigInt 12,
          txr_maxPriorityFeePerGas = JBigInt 6\<rparr> \<and>
   waitMined reverting_remote (trace st_resolved @ [Send demo_approve])
     \<lparr>txr_hash = demo_hash, txr_gasLimit = 500000, txr_maxFeePerGas = JBigInt 12,
      txr_maxPriorityFeePerGas = JBigInt 6\<rparr> =
     Inr \<lparr>rc_hash = demo_hash, rc_status = Some 0, rc_gasUsed = 21000\<rparr> \<and>
   fst (executeTransaction reverting_remote demo_lib demo_approve st_resolved) =
     Inl TransactionFailedOnChain"
proof -
  let ?txr = "\<lparr>txr_hash = demo_hash, txr_gasLimit = 500000, txr_maxFeePerGas = JBigInt 12,
                txr_maxPriorityFeePerGas = JBigInt 6\<rparr>"
  let ?rc = "\<lparr>rc_hash = demo_hash, rc_status = Some 0, rc_gasUsed = 21000\<rparr>"
  have a: "submit reverting_remote (trace st_resolved) demo_approve = Inr ?txr"
    by (simp add: reverting_remote_def legacy_remote_def demo_submit_def demo_approve_def)
  have b: "waitMined reverting_remote (trace st_resolved @ [Send demo_approve]) ?txr = Inr ?rc"
    by (simp add: reverting_remote_def)
  have c: "rc_status ?rc \<noteq> Some 1" by simp
  from executeTransaction_reverted_fails [where env = reverting_remote and st = st_resolved
      and call = demo_approve and txResponse = ?txr and lib = demo_lib
      and ?g1.0 = "''0.000000012''" and ?g2.0 = "''0.000000006''" and rc = ?rc and rc' = ?rc,
      THEN conjunct1] a b c demo_formats
  have "fst (executeTransaction reverting_remote demo_lib demo_approve st_resolved) =
     Inl TransactionFailedOnChain"
    by simp
  with a b show ?thesis by blast
qed

lemma sendToken_validation_absent:
  assumes "readProp (CHAINS cfg) (sourceChain req) = Absent \<or>
           readProp (CHAINS cfg) (destChain req) = Absent \<or>
           (case privateKey req of None \<Rightarrow> True | Some k \<Rightarrow> \<not> matchesKeyPattern k)"
  shows "sendToken env lib cfg req st =
           (Inl (if chainUnknown cfg (sourceChain req) \<or> chainUnknown cfg (destChain req)
                 then InvalidChainConfiguration (sourceChain req) (destChain req)
                 else InvalidPrivateKeyFormat), st)"
  using assms
  by (auto simp: sendToken_def validate_def chainUnknown_def split: option.splits)

text \<open>
  C3. The check of line 133 reads \<^verbatim>\<open>CHAINS[destChain]\<close>, and the read of a name that
  \<^verbatim>\<open>CHAINS\<close> has no entry for finds the property every object inherits under that name.
  For the destination \<^verbatim>\<open>constructor\<close>, with a configured source and a well-formed key,
  the validation passes, and \<^verbatim>\<open>sendToken\<close> has probed the endpoint and read the fee
  data, the decimals and the balance before it fails, with another error.
\<close>

theorem sendToken_inherited_chain_passes:
  "CHAINS demo_cfg (destChain inherited_req) = None \<and>
   matchesKeyPattern demo_key \<and> privateKey inherited_req = Some demo_key \<and>
   validate demo_cfg inherited_req = Inr demo_key \<and>
   sendToken (legacy_remote 1000000000000000000 0) demo_lib demo_cfg inherited_req st0 =
     (Inl (InsufficientBalance ''1.5'' ''1.0''),
      \<lparr>trace = [GetBlockNumber demo_provider, GetFeeData demo_provider, Decimals demo_weth,
                BalanceOf demo_weth demo_sender],
       providerCache = [(''sepolia'', demo_provider)]\<rparr>)"
proof -
  let ?E = "legacy_remote 1000000000000000000 0"
  have d: "CHAINS demo_cfg (destChain inherited_req) = None"
    by (simp add: inherited_req_def demo_chains)
  have k: "privateKey inherited_req = Some demo_key"
    by (simp add: inherited_req_def weth_req_def native_req_def)
  have v: "validate demo_cfg inherited_req = Inr demo_key"
    using demo_key_ok
    by (simp add: validate_def demo_chains native_req_def weth_req_def inherited_req_def)
  have r: "resolve ?E demo_lib demo_cfg inherited_req demo_key st0 = (Inr demo_resolved, st_resolved)"
    by (rule demo_resolve_sepolia; simp add: native_req_def weth_req_def inherited_req_def)
  have t: "\<not> isNative inherited_req" "tokenAddress demo_cfg inherited_req = JString demo_weth"
    "amount inherited_req = ''1.5''"
    by (simp_all add: isNative_def isWETH_def tokenAddress_def inherited_req_def weth_req_def
        native_req_def stringRead_def readProp_def demo_cfg_def demo_weth_def)
  have f: "formatUnits demo_lib (JBigInt 1000000000000000000) (UnitDecimals 18) = Inr ''1.0''"
    by (simp add: demo_lib_def demo_formatUnits_def)
  have tc: "tokenChecks ?E demo_lib demo_cfg inherited_req demo_resolved st_resolved =
          (Inl (InsufficientBalance ''1.5'' ''1.0''),
           issue (BalanceOf demo_weth demo_sender) (issue (Decimals demo_weth) st_resolved))"
    by (simp add: tokenChecks_def t demo_token_facts demo_parse legacy_remote_def f Let_def)
  have run: "sendToken ?E demo_lib demo_cfg inherited_req st0 =
          (Inl (InsufficientBalance ''1.5'' ''1.0''),
           issue (BalanceOf demo_weth demo_sender) (issue (Decimals demo_weth) st_resolved))"
    by (simp add: sendToken_def tokenPath_def v r t tc)
  from d k demo_key_ok v show ?thesis
    by (simp add: run st_resolved_def)
qed

text \<open>
  C1. The contracts are made with both functions of the name (lines 161 to 164 and 236 to
  239), and the retry calls the name with one argument less and the overrides: both
  functions take that many values, the lookup of line 93 throws, and nothing is sent.
  Against a bridge that rejects the call with the referral and would accept the call
  without it, \<^verbatim>\<open>sendToken\<close> fails with the error of the lookup, on the native path and
  on the token path; the only deposit submitted is the one with the referral.
\<close>

theorem sendToken_retry_ambiguous:
  "executeTransactionOn env lib bridgeNativeAbi (depositNativeLegacy cfg req r bridge v) st =
     (Inl (LibraryError ''ambiguous function description''), st) \<and>
   executeTransactionOn env lib bridgeERC20Abi
       (depositERC20Legacy cfg req r bridge parsedAmount) st =
     (Inl (LibraryError ''ambiguous function description''), st) \<and>
   submit (legacy_remote 0 0) tr
       (depositNativeReferral demo_cfg native_req demo_resolved demo_bridge 10000000000000000) =
     Inl (RemoteError ''execution reverted'') \<and>
   submit (legacy_remote 0 0) tr
       (depositNativeLegacy demo_cfg native_req demo_resolved demo_bridge 10000000000000000) =
     Inr \<lparr>txr_hash = demo_hash, txr_gasLimit = 500000, txr_maxFeePerGas = JBigInt 12,
          txr_maxPriorityFeePerGas = JBigInt 6\<rparr> \<and>
   sendToken (legacy_remote 0 0) demo_lib demo_cfg native_req st0 =
     (Inl (LibraryError ''ambiguous function description''),
      \<lparr>trace = [GetBlockNumber demo_provider, GetFeeData demo_provider,
                Send (depositNativeReferral demo_cfg native_req demo_resolved demo_bridge
                        10000000000000000)],
       providerCache = [(''sepolia'', demo_provider)]\<rparr>) \<and>
   sendToken (legacy_remote 2000000000000000000 3000000000000000000) demo_lib demo_cfg
       weth_req st0 =
     (Inl (LibraryError ''ambiguous function description''),
      \<lparr>trace = [GetBlockNumber demo_provider, GetFeeData demo_provider, Decimals demo_weth,
                BalanceOf demo_weth demo_sender,
                Allowance demo_weth demo_sender (JString demo_bridge),
                Send (depositERC20Referral demo_cfg weth_req demo_resolved demo_bridge
                        1500000000000000000)],
       providerCache = [(''sepolia'', demo_provider)]\<rparr>)"
proof -
  let ?E = "legacy_remote 0 0"
  let ?ref = "depositNativeReferral demo_cfg native_req demo_resolved demo_bridge 10000000000000000"
  let ?leg = "depositNativeLegacy demo_cfg native_req demo_resolved demo_bridge 10000000000000000"
  have n: "isNative native_req" by (simp add: isNative_def native_req_def)
  have c: "Contract demo_lib (rs_bridge demo_resolved) = Inr demo_bridge"
    by (simp add: demo_parse demo_token_facts)
  have p: "parseEther demo_lib (amount native_req) = Inr 10000000000000000"
    by (simp add: demo_parse native_req_def)
  have e1: "executeTransaction ?E demo_lib ?ref st_resolved =
              (Inl (RemoteError ''execution reverted''), issue (Send ?ref) st_resolved)"
    by (rule demo_execute_rejected) (simp add: depositNativeReferral_def)
  have native:
    "sendToken ?E demo_lib demo_cfg native_req st0 =
       (Inl (LibraryError ''ambiguous function description''), issue (Send ?ref) st_resolved)"
    by (simp add: sendToken_def demo_validate demo_resolve n nativePath_retry [OF c p e1])
  let ?T = "legacy_remote 2000000000000000000 3000000000000000000"
  let ?tref = "depositERC20Referral demo_cfg weth_req demo_resolved demo_bridge 1500000000000000000"
  let ?st2 = "issue (BalanceOf demo_weth demo_sender) (issue (Decimals demo_weth) st_resolved)"
  let ?st3 = "issue (Allowance demo_weth demo_sender (JString demo_bridge)) ?st2"
  have tc: "tokenChecks ?T demo_lib demo_cfg weth_req demo_resolved st_resolved =
              (Inr (demo_weth, 18, 1500000000000000000), ?st2)"
    by (rule demo_tokenChecks) simp
  have ha: "handleApproval ?T demo_lib weth_req demo_resolved demo_weth 1500000000000000000 ?st2
              = (Inr (), ?st3)"
    by (simp add: handleApproval_def legacy_remote_def demo_token_facts)
  have t1: "executeTransaction ?T demo_lib ?tref ?st3 =
              (Inl (RemoteError ''execution reverted''), issue (Send ?tref) ?st3)"
    by (rule demo_execute_rejected) (simp add: depositERC20Referral_def)
  have token:
    "sendToken ?T demo_lib demo_cfg weth_req st0 =
       (Inl (LibraryError ''ambiguous function description''), issue (Send ?tref) ?st3)"
    by (simp add: sendToken_def tokenPath_def demo_validate demo_resolve demo_token_facts tc ha
        tokenDeposit_retry [OF c t1])
  have s1: "submit ?E tr ?ref = Inl (RemoteError ''execution reverted'')" for tr
    by (simp add: legacy_remote_def demo_submit_def depositNativeReferral_def)
  have s2: "submit ?E tr ?leg =
      Inr \<lparr>txr_hash = demo_hash, txr_gasLimit = 500000, txr_maxFeePerGas = JBigInt 12,
           txr_maxPriorityFeePerGas = JBigInt 6\<rparr>" for tr
    by (simp add: legacy_remote_def demo_submit_def depositNativeLegacy_def demo_token_facts)
  show ?thesis
    by (simp add: lookup_depositNativeLegacy lookup_depositERC20Legacy native token s1 s2)
      (simp add: st_resolved_def)
qed

text \<open>
  C4. On the token path, once the checks have passed and the allowance has been read: the
  transactions \<^verbatim>\<open>sendToken\<close> submits are, in order, one \<^verbatim>\<open>approve\<close> of the bridge for
  twice the amount when the allowance is below the amount, none otherwise, and then
  only \<^verbatim>\<open>depositERC20\<close> calls.
\<close>

theorem sendToken_approval:
  assumes "validate cfg req = Inr key"
    and "resolve env lib cfg req key st = (Inr r, st1)"
    and "\<not> isNative req"
    and "tokenChecks env lib cfg req r st1 = (Inr (erc20, decimals, parsedAmount), st2)"
    and "readAllowance env (trace st2) erc20 (rs_sender r) (rs_bridge r) = Inr allowance"
  shows "(\<exists>deposits.
            submissions (trace (snd (sendToken env lib cfg req st))) =
              submissions (trace st) @
              (if allowance < parsedAmount then [approveCall req r erc20 parsedAmount] else []) @
              deposits \<and>
            (\<forall>c \<in> set deposits. tx_method c = ''depositERC20'')) \<and>
         tx_method (approveCall req r erc20 parsedAmount) = ''approve'' \<and>
         tx_args (approveCall req r erc20 parsedAmount) =
           [rs_bridge r, JBigInt (2 * parsedAmount)]"
proof -
  let ?ap = "if allowance < parsedAmount then [approveCall req r erc20 parsedAmount] else []"
  obtain x st3 where ha: "handleApproval env lib req r erc20 parsedAmount st2 = (x, st3)"
    by (cases "handleApproval env lib req r erc20 parsedAmount st2")
  have s1: "submissions (trace st1) = submissions (trace st)"
    using assms(2) by (rule resolve_submissions)
  have s2: "submissions (trace st2) = submissions (trace st)"
    using tokenChecks_submissions [OF assms(4)] s1 by simp
  have s3: "submissions (trace st3) = submissions (trace st) @ ?ap"
    using handleApproval_submissions [OF assms(5) ha] s2 by simp
  have "\<exists>deposits.
            submissions (trace (snd (sendToken env lib cfg req st))) =
              submissions (trace st) @ ?ap @ deposits \<and>
            (\<forall>c \<in> set deposits. tx_method c = ''depositERC20'')"
  proof (cases x)
    case (Inl e)
    with assms ha have "snd (sendToken env lib cfg req st) = st3"
      by (simp add: sendToken_def tokenPath_def)
    with s3 show ?thesis by simp
  next
    case (Inr u)
    obtain y st4 where td: "tokenDeposit env lib cfg req r parsedAmount st3 = (y, st4)"
      by (cases "tokenDeposit env lib cfg req r parsedAmount st3")
    with assms ha Inr have "snd (sendToken env lib cfg req st) = st4"
      by (simp add: sendToken_def tokenPath_def)
    with tokenDeposit_submissions [OF td] s3 show ?thesis by auto
  qed
  then show ?thesis by (simp add: approveCall_def)
qed

theorem sendToken_approval_witness:
  "readAllowance (legacy_remote 2000000000000000000 0)
     (trace (issue (BalanceOf demo_weth demo_sender) (issue (Decimals demo_weth) st_resolved)))
     demo_weth demo_sender (JString demo_bridge) = Inr 0 \<and>
   submissions (trace (snd (sendToken (legacy_remote 2000000000000000000 0) demo_lib demo_cfg
      weth_req st0))) =
     [approveCall weth_req demo_resolved demo_weth 1500000000000000000,
      depositERC20Referral demo_cfg weth_req demo_resolved demo_bridge 1500000000000000000] \<and>
   tx_args (approveCall weth_req demo_resolved demo_weth 1500000000000000000) =
     [JString demo_bridge, JBigInt 3000000000000000000] \<and>
   readAllowance (legacy_remote 2000000000000000000 3000000000000000000)
     (trace (issue (BalanceOf demo_weth demo_sender) (issue (Decimals demo_weth) st_resolved)))
     demo_weth demo_sender (JString demo_bridge) = Inr 3000000000000000000 \<and>
   submissions (trace (snd (sendToken (legacy_remote 2000000000000000000 3000000000000000000)
      demo_lib demo_cfg weth_req st0))) =
     [depositERC20Referral demo_cfg weth_req demo_resolved demo_bridge 1500000000000000000]"
proof -
  let ?A = "legacy_remote 2000000000000000000 0"
  let ?B = "legacy_remote 2000000000000000000 3000000000000000000"
  let ?st2 = "issue (BalanceOf demo_weth demo_sender) (issue (Decimals demo_weth) st_resolved)"
  let ?ap = "approveCall weth_req demo_resolved demo_weth 1500000000000000000"
  let ?tref = "depositERC20Referral demo_cfg weth_req demo_resolved demo_bridge 1500000000000000000"
  have s0: "submissions (trace st0) = []" by (simp add: st0_def)
  have ra: "readAllowance ?A (trace ?st2) demo_weth demo_sender (JString demo_bridge) = Inr 0"
    by (simp add: legacy_remote_def)
  have rb: "readAllowance ?B (trace ?st2) demo_weth demo_sender (JString demo_bridge)
              = Inr 3000000000000000000"
    by (simp add: legacy_remote_def)
  have tca: "tokenChecks ?A demo_lib demo_cfg weth_req demo_resolved st_resolved =
              (Inr (demo_weth, 18, 1500000000000000000), ?st2)"
    by (rule demo_tokenChecks) simp
  have tcb: "tokenChecks ?B demo_lib demo_cfg weth_req demo_resolved st_resolved =
              (Inr (demo_weth, 18, 1500000000000000000), ?st2)"
    by (rule demo_tokenChecks) simp
  note a = sendToken_approval [OF demo_validate(2) demo_resolve(2) demo_token_facts(1) tca,
      where allowance = 0, unfolded demo_token_facts, OF ra]
  note b = sendToken_approval [OF demo_validate(2) demo_resolve(2) demo_token_facts(1) tcb,
      where allowance = 3000000000000000000, unfolded demo_token_facts, OF rb]
  from a obtain da where
    da: "submissions (trace (snd (sendToken ?A demo_lib demo_cfg weth_req st0))) = ?ap # da"
    and args: "tx_args ?ap = [JString demo_bridge, JBigInt 3000000000000000000]"
    by (auto simp: s0)
  from b obtain db where
    db: "submissions (trace (snd (sendToken ?B demo_lib demo_cfg weth_req st0))) = db"
    by (auto simp: s0)
  have ea: "executeTransaction ?A demo_lib ?ap st = (Inr demo_receipt,
      issue (Wait \<lparr>txr_hash = demo_hash, txr_gasLimit = 500000, txr_maxFeePerGas = JBigInt 12,
                   txr_maxPriorityFeePerGas = JBigInt 6\<rparr>) (issue (Send ?ap) st))" for st
    by (rule demo_execute_mined) (simp_all add: approveCall_def demo_token_facts)
  have dep: "snd (tokenDeposit (legacy_remote x y) demo_lib demo_cfg weth_req demo_resolved
                1500000000000000000 st) = issue (Send ?tref) st" for x y st
  proof -
    have c: "Contract demo_lib (rs_bridge demo_resolved) = Inr demo_bridge"
      by (simp add: demo_parse demo_token_facts)
    have 1: "executeTransaction (legacy_remote x y) demo_lib ?tref st =
              (Inl (RemoteError ''execution reverted''), issue (Send ?tref) st)"
      by (rule demo_execute_rejected) (simp add: depositERC20Referral_def)
    show ?thesis by (simp add: tokenDeposit_retry [OF c 1])
  qed
  have fa: "submissions (trace (snd (sendToken ?A demo_lib demo_cfg weth_req st0))) =
              [?ap, ?tref]"
    by (simp add: sendToken_def tokenPath_def demo_validate demo_resolve demo_token_facts tca
        handleApproval_def lookup_approve ra [simplified] ea split_beta dep)
      (simp add: st_resolved_def)
  have fb: "submissions (trace (snd (sendToken ?B demo_lib demo_cfg weth_req st0))) =
              [?tref]"
    by (simp add: sendToken_def tokenPath_def demo_validate demo_resolve demo_token_facts tcb
        handleApproval_def rb [simplified] split_beta dep)
      (simp add: st_resolved_def)
  from ra rb fa fb args show ?thesis by blast
qed

text \<open>
  C5. On the token path, a balance below the amount in base units makes \<^verbatim>\<open>sendToken\<close>
  fail with the insufficient-balance error, which carries the amount as the caller gave it
  and the balance as \<^verbatim>\<open>formatUnits(balance, decimals)\<close> prints it; no transaction is
  submitted.
\<close>

theorem sendToken_insufficient_balance:
  assumes "validate cfg req = Inr key"
    and "resolve env lib cfg req key st = (Inr r, st1)"
    and "\<not> isNative req"
    and "Contract lib (tokenAddress cfg req) = Inr erc20"
    and "decimals = (case readDecimals env (trace st1) erc20 of Inl e \<Rightarrow> 18 | Inr d \<Rightarrow> d)"
    and "parseUnits lib (amount req) decimals = Inr parsedAmount"
    and "readBalance env (trace st1 @ [Decimals erc20]) erc20 (rs_sender r) = Inr balance"
    and "balance < parsedAmount"
    and "formatUnits lib (JBigInt balance) (UnitDecimals decimals) = Inr has"
  shows "fst (sendToken env lib cfg req st) = Inl (InsufficientBalance (amount req) has) \<and>
         submissions (trace (snd (sendToken env lib cfg req st))) = submissions (trace st)"
proof -
  have tc: "tokenChecks env lib cfg req r st1 =
          (Inl (InsufficientBalance (amount req) has),
           issue (BalanceOf erc20 (rs_sender r)) (issue (Decimals erc20) st1))"
    using assms(4-9) by (simp add: tokenChecks_def Let_def)
  then have st: "sendToken env lib cfg req st =
          (Inl (InsufficientBalance (amount req) has),
           issue (BalanceOf erc20 (rs_sender r)) (issue (Decimals erc20) st1))"
    using assms(1-3) by (simp add: sendToken_def tokenPath_def)
  from resolve_submissions [OF assms(2)] show ?thesis by (simp add: st)
qed

theorem sendToken_insufficient_balance_witness:
  "readBalance (legacy_remote 1000000000000000000 0) (trace st_resolved @ [Decimals demo_weth])
     demo_weth demo_sender = Inr 1000000000000000000 \<and>
   parseUnits demo_lib ''1.5'' 18 = Inr 1500000000000000000 \<and>
   formatUnits demo_lib (JBigInt 1000000000000000000) (UnitDecimals 18) = Inr ''1.0'' \<and>
   fst (sendToken (legacy_remote 1000000000000000000 0) demo_lib demo_cfg weth_req st0) =
     Inl (InsufficientBalance ''1.5'' ''1.0'') \<and>
   submissions (trace (snd (sendToken (legacy_remote 1000000000000000000 0) demo_lib demo_cfg
     weth_req st0))) = []"
proof -
  let ?E = "legacy_remote 1000000000000000000 0"
  have c: "Contract demo_lib (tokenAddress demo_cfg weth_req) = Inr demo_weth"
    by (simp add: demo_token_facts demo_parse)
  have d: "(18::nat) = (case readDecimals ?E (trace st_resolved) demo_weth of
                          Inl e \<Rightarrow> 18 | Inr d \<Rightarrow> d)"
    by (simp add: legacy_remote_def)
  have p: "parseUnits demo_lib (amount weth_req) 18 = Inr 1500000000000000000"
    by (simp add: demo_token_facts demo_parse)
  have b: "readBalance ?E (trace st_resolved @ [Decimals demo_weth]) demo_weth
             (rs_sender demo_resolved) = Inr 1000000000000000000"
    by (simp add: legacy_remote_def)
  have lt: "(1000000000000000000::int) < 1500000000000000000" by simp
  have f: "formatUnits demo_lib (JBigInt 1000000000000000000) (UnitDecimals 18) = Inr ''1.0''"
    by (simp add: demo_lib_def demo_formatUnits_def)
  from sendToken_insufficient_balance [OF demo_validate(2) demo_resolve(2) demo_token_facts(1)
      c d p b lt f]
  have "fst (sendToken ?E demo_lib demo_cfg weth_req st0) =
          Inl (InsufficientBalance ''1.5'' ''1.0'') \<and>
        submissions (trace (snd (sendToken ?E demo_lib demo_cfg weth_req st0))) = []"
    by (simp add: demo_token_facts st0_def)
  with b p f show ?thesis by (simp add: demo_token_facts)
qed

end
